theory Spec2Isabelle
  imports Complex_Main
begin

section \<open>A shallow embedding of \<^verbatim>\<open>botorch_community/models/vblls.py\<close>\<close>

text \<open>
  The module defines \<^verbatim>\<open>SampleModel\<close>, \<^verbatim>\<open>VBLLNetwork\<close>, \<^verbatim>\<open>AbstractBLLModel\<close> (with
  \<^verbatim>\<open>fit\<close>, \<^verbatim>\<open>set_reg_weight\<close>, \<^verbatim>\<open>posterior\<close>) and \<^verbatim>\<open>VBLLModel\<close> (with \<^verbatim>\<open>sample\<close>).
  Tensor operations of the tensor library that the module calls (\<^verbatim>\<open>squeeze\<close>,
  \<^verbatim>\<open>diag_embed\<close>, \<^verbatim>\<open>reshape\<close>, \<^verbatim>\<open>einsum\<close>, \<^verbatim>\<open>matmul\<close>, \<^verbatim>\<open>expand\<close>, ...) are
  written out on a row-major tensor model, with every exception they raise as a
  value. The neural collaborators (the backbone's forward pass, the variational
  head's predictive distribution, weight posterior and loss, automatic
  differentiation, gradient clipping, the optimizer's update rule and the data
  loader's random permutation) are parameters of the model, collected in the
  record \<open>engine\<close>. Finite floating-point values are modelled by the reals, so
  rounding is not part of the model; infinities and NaN are.
\<close>

subsection \<open>Exceptions\<close>

datatype error = ValueError | IndexError | RuntimeError | ZeroDivisionError

definition and_then :: "error + 'a \<Rightarrow> ('a \<Rightarrow> error + 'b) \<Rightarrow> error + 'b" where
  "and_then r f = (case r of Inl e \<Rightarrow> Inl e | Inr v \<Rightarrow> f v)"

subsection \<open>Python floats: finite values, infinities and NaN\<close>

datatype pyfloat = Fin real | PInf | NInf | NaN

text \<open>\<^verbatim>\<open>a < b\<close> on floats: every comparison with NaN is false.\<close>

fun flt :: "pyfloat \<Rightarrow> pyfloat \<Rightarrow> bool" where
  "flt (Fin a) (Fin b) = (a < b)"
| "flt (Fin a) PInf = True"
| "flt NInf (Fin b) = True"
| "flt NInf PInf = True"
| "flt _ _ = False"

fun fadd :: "pyfloat \<Rightarrow> pyfloat \<Rightarrow> pyfloat" where
  "fadd (Fin a) (Fin b) = Fin (a + b)"
| "fadd NaN _ = NaN"
| "fadd _ NaN = NaN"
| "fadd PInf NInf = NaN"
| "fadd NInf PInf = NaN"
| "fadd PInf _ = PInf"
| "fadd _ PInf = PInf"
| "fadd NInf _ = NInf"
| "fadd _ NInf = NInf"

text \<open>\<^verbatim>\<open>sum(xs)\<close>: a left fold of \<^verbatim>\<open>+\<close> starting at \<^verbatim>\<open>0\<close>.\<close>

definition fsum :: "pyfloat list \<Rightarrow> pyfloat" where
  "fsum xs = foldl fadd (Fin 0) xs"

text \<open>\<^verbatim>\<open>x / n\<close> for a float \<^verbatim>\<open>x\<close> and an integer \<^verbatim>\<open>n\<close>; \<^verbatim>\<open>n = 0\<close> raises.\<close>

definition fdiv_int :: "pyfloat \<Rightarrow> nat \<Rightarrow> error + pyfloat" where
  "fdiv_int x n =
     (if n = 0 then Inl ZeroDivisionError
      else Inr (case x of Fin a \<Rightarrow> Fin (a / real n) | PInf \<Rightarrow> PInf | NInf \<Rightarrow> NInf | NaN \<Rightarrow> NaN))"

subsection \<open>Tensors\<close>

text \<open>
  A tensor is its shape and its elements in row-major order. \<open>ravel\<close> turns a
  multi-index into the offset of the element, \<open>unravel\<close> is its inverse, and
  \<open>tabulate\<close> builds the tensor of a shape from a function of the multi-index.
\<close>

record tensor =
  shape :: "nat list"
  data :: "real list"

definition numel :: "tensor \<Rightarrow> nat" where
  "numel t = prod_list (shape t)"

definition ndim :: "tensor \<Rightarrow> nat" where
  "ndim t = length (shape t)"

definition well_formed :: "tensor \<Rightarrow> bool" where
  "well_formed t = (length (data t) = prod_list (shape t))"

fun ravel :: "nat list \<Rightarrow> nat list \<Rightarrow> nat" where
  "ravel (d # ds) (i # js) = i * prod_list ds + ravel ds js"
| "ravel _ _ = 0"

fun unravel :: "nat list \<Rightarrow> nat \<Rightarrow> nat list" where
  "unravel [] k = []"
| "unravel (d # ds) k = (k div prod_list ds) # unravel ds (k mod prod_list ds)"

definition tget :: "tensor \<Rightarrow> nat list \<Rightarrow> real" where
  "tget t idx = data t ! ravel (shape t) idx"

definition tabulate :: "nat list \<Rightarrow> (nat list \<Rightarrow> real) \<Rightarrow> tensor" where
  "tabulate s f = \<lparr>shape = s, data = map (\<lambda>k. f (unravel s k)) [0..<prod_list s]\<rparr>"

text \<open>A multi-index is valid for a shape when it has its rank and stays below every size.\<close>

definition valid_index :: "nat list \<Rightarrow> nat list \<Rightarrow> bool" where
  "valid_index s idx = (length idx = length s \<and> list_all2 (\<lambda>i d. i < d) idx s)"

text \<open>\<^verbatim>\<open>maybe_wrap_dim\<close>: a dimension argument \<open>d\<close> of a rank-\<open>n\<close> tensor lies in
  \<open>[-n, n - 1]\<close> (in \<open>[-1, 0]\<close> for a scalar) and a negative one counts from the end.\<close>

definition wrap_dim :: "int \<Rightarrow> nat \<Rightarrow> nat option" where
  "wrap_dim d n =
     (let m = (if n = 0 then 1 else int n)
      in if - m \<le> d \<and> d < m then Some (nat (if d < 0 then d + m else d)) else None)"

text \<open>\<^verbatim>\<open>t.squeeze()\<close>: every dimension of size 1 is removed.\<close>

definition squeeze :: "tensor \<Rightarrow> tensor" where
  "squeeze t = t\<lparr>shape := filter (\<lambda>d. d \<noteq> 1) (shape t)\<rparr>"

text \<open>\<^verbatim>\<open>t.squeeze(d)\<close>: dimension \<open>d\<close> is removed when its size is 1.\<close>

definition squeeze_dim :: "int \<Rightarrow> tensor \<Rightarrow> error + tensor" where
  "squeeze_dim d t =
     (case wrap_dim d (ndim t) of
        None \<Rightarrow> Inl IndexError
      | Some i \<Rightarrow>
          Inr (if i < ndim t \<and> shape t ! i = 1
               then t\<lparr>shape := take i (shape t) @ drop (Suc i) (shape t)\<rparr> else t))"

text \<open>\<^verbatim>\<open>t.unsqueeze(0)\<close> and \<^verbatim>\<open>t[..., None]\<close>.\<close>

definition unsqueeze_first :: "tensor \<Rightarrow> tensor" where
  "unsqueeze_first t = t\<lparr>shape := 1 # shape t\<rparr>"

definition unsqueeze_last :: "tensor \<Rightarrow> tensor" where
  "unsqueeze_last t = t\<lparr>shape := shape t @ [1]\<rparr>"

text \<open>\<^verbatim>\<open>t.reshape(s)\<close>: the element count must not change.\<close>

definition reshape :: "nat list \<Rightarrow> tensor \<Rightarrow> error + tensor" where
  "reshape s t = (if prod_list s = numel t then Inr (t\<lparr>shape := s\<rparr>) else Inl RuntimeError)"

text \<open>\<^verbatim>\<open>torch.diag_embed(t)\<close>: the last dimension of size \<open>n\<close> becomes the diagonal
  of an \<open>n \<times> n\<close> matrix, every other entry of which is 0. A scalar has no last
  dimension: the call raises.\<close>

definition diag_embed :: "tensor \<Rightarrow> error + tensor" where
  "diag_embed t =
     (if shape t = [] then Inl IndexError
      else Inr (tabulate (shape t @ [last (shape t)])
                  (\<lambda>idx. if last idx = last (butlast idx) then tget t (butlast idx) else 0)))"

text \<open>\<^verbatim>\<open>torch.einsum("bqkbrl->bqkrl", t)\<close>: the diagonal of the two axes named \<open>b\<close>,
  which must have one size.\<close>

definition einsum_bqkbrl_bqkrl :: "tensor \<Rightarrow> error + tensor" where
  "einsum_bqkbrl_bqkrl t =
     (let s = shape t
      in if length s = 6 \<and> s ! 0 = s ! 3
         then Inr (tabulate [s ! 0, s ! 1, s ! 2, s ! 4, s ! 5]
                     (\<lambda>idx. tget t [idx ! 0, idx ! 1, idx ! 2, idx ! 0, idx ! 3, idx ! 4]))
         else Inl RuntimeError)"

text \<open>\<^verbatim>\<open>t.transpose(-1, -2)\<close>.\<close>

definition transpose_last2 :: "tensor \<Rightarrow> error + tensor" where
  "transpose_last2 t =
     (let s = shape t; r = length s
      in if r < 2 then Inl IndexError
         else Inr (tabulate (take (r - 2) s @ [s ! (r - 1), s ! (r - 2)])
                     (\<lambda>idx. tget t (take (r - 2) idx @ [idx ! (r - 1), idx ! (r - 2)]))))"

text \<open>Broadcasting: shapes are aligned at their last dimension; two sizes are
  compatible when they are equal or one of them is 1.\<close>

fun broadcast_rev :: "nat list \<Rightarrow> nat list \<Rightarrow> nat list option" where
  "broadcast_rev [] ys = Some ys"
| "broadcast_rev xs [] = Some xs"
| "broadcast_rev (x # xs) (y # ys) =
     (if x = y \<or> y = 1 then map_option ((#) x) (broadcast_rev xs ys)
      else if x = 1 then map_option ((#) y) (broadcast_rev xs ys)
      else None)"

definition broadcast_shapes :: "nat list \<Rightarrow> nat list \<Rightarrow> nat list option" where
  "broadcast_shapes a b = map_option rev (broadcast_rev (rev a) (rev b))"

text \<open>The index into a tensor of shape \<open>s\<close> that a broadcast index \<open>idx\<close> (of a
  shape \<open>s\<close> broadcasts to) reads.\<close>

definition broadcast_index :: "nat list \<Rightarrow> nat list \<Rightarrow> nat list" where
  "broadcast_index s idx =
     map2 (\<lambda>d i. if d = 1 then 0 else i) s (drop (length idx - length s) idx)"

text \<open>\<^verbatim>\<open>t.expand(*sizes)\<close>: \<open>-1\<close> keeps a size; a dimension of size 1 is repeated;
  new leading dimensions may be added.\<close>

definition expand :: "int list \<Rightarrow> tensor \<Rightarrow> error + tensor" where
  "expand sizes t =
     (let s = shape t; k = length sizes - length s
      in if length sizes < length s \<or> list_ex (\<lambda>z. z < 0) (take k sizes)
            \<or> list_ex (\<lambda>(z, d). z \<noteq> - 1 \<and> z \<noteq> int d \<and> d \<noteq> 1) (zip (drop k sizes) s)
            \<or> list_ex (\<lambda>z. z < - 1) sizes
         then Inl RuntimeError
         else Inr (tabulate
                (map nat (take k sizes) @ map2 (\<lambda>z d. if z = - 1 then d else nat z) (drop k sizes) s)
                (\<lambda>idx. tget t (broadcast_index s idx))))"

text \<open>\<^verbatim>\<open>torch.matmul\<close> of two tensors of rank at least 2: a matrix product over the
  last two dimensions, the leading (batch) dimensions broadcast.\<close>

definition matmul_nd :: "tensor \<Rightarrow> tensor \<Rightarrow> error + tensor" where
  "matmul_nd a b =
     (let sa = shape a; sb = shape b; ra = length sa; rb = length sb;
          n = sa ! (ra - 2); k = sa ! (ra - 1); k' = sb ! (rb - 2); p = sb ! (rb - 1)
      in if k \<noteq> k' then Inl RuntimeError
         else case broadcast_shapes (take (ra - 2) sa) (take (rb - 2) sb) of
           None \<Rightarrow> Inl RuntimeError
         | Some batch \<Rightarrow>
             Inr (tabulate (batch @ [n, p])
               (\<lambda>idx. let bi = take (length batch) idx;
                           i = idx ! length batch; j = idx ! Suc (length batch)
                       in (\<Sum>l\<leftarrow>[0..<k].
                             tget a (broadcast_index (take (ra - 2) sa) bi @ [i, l])
                             * tget b (broadcast_index (take (rb - 2) sb) bi @ [l, j])))))"

text \<open>\<^verbatim>\<open>torch.matmul\<close> (also written \<^verbatim>\<open>@\<close>): a vector operand is promoted to a
  matrix and the added dimension removed from the result; scalars are refused.\<close>

definition matmul :: "tensor \<Rightarrow> tensor \<Rightarrow> error + tensor" where
  "matmul a b =
     (if ndim a = 0 \<or> ndim b = 0 then Inl RuntimeError
      else and_then
        (matmul_nd (if ndim a = 1 then unsqueeze_first a else a)
                   (if ndim b = 1 then unsqueeze_last b else b))
        (\<lambda>c. let r = length (shape c);
                  c1 = (if ndim b = 1 then c\<lparr>shape := butlast (shape c)\<rparr> else c)
              in Inr (if ndim a = 1
                      then c1\<lparr>shape := take (r - 2) (shape c) @ drop (r - 1) (shape c1)\<rparr>
                      else c1)))"

subsection \<open>The surrogate model and its collaborators\<close>

text \<open>
  Parameter tensors live in a heap of tensors, at addresses. A state dict is an
  ordered dictionary from parameter names to tensors; the tensors it holds are
  references, so it is a list of names with addresses. The record \<open>bll_model\<close>
  is the state of a \<^verbatim>\<open>VBLLModel\<close>: the attributes of its \<^verbatim>\<open>VBLLNetwork\<close> (with the
  head's \<^verbatim>\<open>regularization_weight\<close> and the module's training flag), the named
  parameters of backbone and head, the heap and the \<^verbatim>\<open>.grad\<close> of every tensor.
  Devices are not modelled: moving a tensor keeps its values.
\<close>

type_synonym addr = nat

type_synonym state_dict = "(string \<times> addr) list"

record bll_model =
  num_inputs :: nat
  num_outputs :: nat
  kl_scale :: real
  backbone_params :: state_dict
  head_params :: state_dict
  regularization_weight :: real
  training :: bool
  heap :: "addr \<Rightarrow> tensor"
  grads :: "addr \<Rightarrow> tensor option"

text \<open>A parameter group handed to the optimizer's constructor.\<close>

record param_group =
  params :: "addr list"
  weight_decay :: real

text \<open>
  The collaborators. \<open>backbone_apply\<close> is \<^verbatim>\<open>self.backbone(x)\<close>; \<open>head_predictive\<close>
  is mean and variance of \<^verbatim>\<open>self.head(features).predictive\<close>; \<open>head_rsample\<close> is
  \<^verbatim>\<open>self.head.W().rsample(sample_shape)\<close>, the draw this call makes; \<open>train_loss\<close>
  is \<^verbatim>\<open>self.model(x).train_loss_fn(y)\<close> read by \<^verbatim>\<open>.item()\<close> and \<open>backward\<close> the
  gradient \<^verbatim>\<open>loss.backward()\<close> adds to each parameter's \<^verbatim>\<open>.grad\<close>; \<open>clip_grad_norm\<close>
  is \<^verbatim>\<open>torch.nn.utils.clip_grad_norm_\<close>; \<open>opt_init\<close> is the constructor of the
  optimizer class in force (the setting \<^verbatim>\<open>optimizer\<close>, with \<^verbatim>\<open>optimizer_kwargs\<close>)
  and \<open>opt_update\<close> its update of one parameter from the optimizer's state, the
  group's weight decay, the parameter and its gradient; \<open>shuffle\<close> is the
  permutation the data loader draws in an epoch.
\<close>

record ('x, 'y, 'os) engine =
  backbone_apply :: "bll_model \<Rightarrow> tensor \<Rightarrow> tensor"
  head_predictive :: "bll_model \<Rightarrow> tensor \<Rightarrow> tensor \<times> tensor"
  head_rsample :: "bll_model \<Rightarrow> nat list \<Rightarrow> tensor"
  train_loss :: "bll_model \<Rightarrow> ('x \<times> 'y) list \<Rightarrow> pyfloat"
  backward :: "bll_model \<Rightarrow> ('x \<times> 'y) list \<Rightarrow> addr \<Rightarrow> tensor"
  clip_grad_norm :: "real \<Rightarrow> addr list \<Rightarrow> (addr \<Rightarrow> tensor option) \<Rightarrow> addr \<Rightarrow> tensor option"
  opt_init :: "param_group list \<Rightarrow> real \<Rightarrow> 'os"
  opt_update :: "'os \<Rightarrow> real \<Rightarrow> tensor \<Rightarrow> tensor \<Rightarrow> tensor \<times> 'os"
  shuffle :: "int \<Rightarrow> ('x \<times> 'y) list \<Rightarrow> ('x \<times> 'y) list"

subsection \<open>\<^verbatim>\<open>SampleModel\<close> and \<^verbatim>\<open>VBLLNetwork.sample_posterior_function\<close>\<close>

record sample_model =
  sm_backbone :: "tensor \<Rightarrow> tensor"
  sampled_params :: tensor

text \<open>\<^verbatim>\<open>SampleModel.forward\<close>.\<close>

definition forward :: "sample_model \<Rightarrow> tensor \<Rightarrow> error + tensor" where
  "forward sm x0 =
     (let x = sm_backbone sm x0; w = sampled_params sm
      in if ndim w = 2
         then and_then (matmul w (unsqueeze_last x)) (squeeze_dim (- 1))
         else if shape w = [] then Inl IndexError
         else and_then (expand [int (shape w ! 0), - 1, - 1] (unsqueeze_first x))
                (\<lambda>x_expanded. and_then (transpose_last2 x_expanded) (matmul w)))"

text \<open>The truth value of an optional \<^verbatim>\<open>torch.Size\<close> (a tuple): \<^verbatim>\<open>None\<close> and the
  empty tuple are false, every other tuple is true.\<close>

definition truthy :: "nat list option \<Rightarrow> bool" where
  "truthy sample_shape = (case sample_shape of None \<Rightarrow> False | Some s \<Rightarrow> s \<noteq> [])"

text \<open>\<^verbatim>\<open>VBLLNetwork.sample_posterior_function\<close>; \<^verbatim>\<open>rsample()\<close> without an argument
  draws with the default \<^verbatim>\<open>sample_shape = torch.Size()\<close>.\<close>

definition sample_posterior_function ::
  "('x, 'y, 'os) engine \<Rightarrow> bll_model \<Rightarrow> nat list option \<Rightarrow> sample_model" where
  "sample_posterior_function env m sample_shape =
     \<lparr>sm_backbone = backbone_apply env m,
      sampled_params =
        (if truthy sample_shape then head_rsample env m (the sample_shape)
         else head_rsample env m [])\<rparr>"

text \<open>\<^verbatim>\<open>VBLLModel.sample\<close>.\<close>

definition sample :: "('x, 'y, 'os) engine \<Rightarrow> bll_model \<Rightarrow> nat list option \<Rightarrow> sample_model" where
  "sample env m sample_shape = sample_posterior_function env m sample_shape"

subsection \<open>\<^verbatim>\<open>AbstractBLLModel.posterior\<close>\<close>

record bll_posterior =
  post_mean :: tensor
  post_covariance :: tensor
  post_X :: tensor
  post_output_dim :: nat

text \<open>\<^verbatim>\<open>self.model(X).predictive\<close>: \<^verbatim>\<open>VBLLNetwork.forward\<close> pipes the backbone into the head.\<close>

definition predictive :: "('x, 'y, 'os) engine \<Rightarrow> bll_model \<Rightarrow> tensor \<Rightarrow> tensor \<times> tensor" where
  "predictive env m x = head_predictive env m (backbone_apply env m x)"

text \<open>The body of \<^verbatim>\<open>posterior\<close>; \<^verbatim>\<open>N, D = X.shape\<close> raises unless \<open>X\<close> has rank 2.\<close>

definition posterior_distribution ::
  "('x, 'y, 'os) engine \<Rightarrow> bll_model \<Rightarrow> tensor \<Rightarrow> error + bll_posterior" where
  "posterior_distribution env m X =
     (let batched = (ndim X = 3)
      in if \<not> batched \<and> ndim X \<noteq> 2 then Inl ValueError
         else
           let B = (if batched then shape X ! 0 else 1);
               N = (if batched then shape X ! 1 else shape X ! 0);
               D = (if batched then shape X ! 2 else shape X ! 1)
           in and_then (if batched then reshape [B * N, D] X else Inr X) (\<lambda>X1.
              let (mean0, variance0) = predictive env m X1;
                  mean1 = squeeze mean0;
                  variance = squeeze variance0;
                  K = num_outputs m
              in and_then (diag_embed variance) (\<lambda>cov0.
                 and_then (reshape [B, N * K] mean1) (\<lambda>mean2.
                 and_then (reshape [B, N, K, B, N, K] cov0) (\<lambda>cov1.
                 and_then (einsum_bqkbrl_bqkrl cov1) (\<lambda>cov2.
                 and_then (reshape [B, N * K, N * K] cov2) (\<lambda>cov3.
                 and_then (if batched then Inr mean2 else squeeze_dim 0 mean2) (\<lambda>mean3.
                 and_then (if batched then Inr cov3 else squeeze_dim 0 cov3) (\<lambda>cov4.
                 Inr \<lparr>post_mean = mean3, post_covariance = cov4, post_X = X1,
                      post_output_dim = K\<rparr>)))))))))"


subsection \<open>Optimization settings\<close>

text \<open>The settings in force, and the caller's dictionary, in which a key is
  present or absent (\<^verbatim>\<open>clip_val\<close> may be present with the value \<^verbatim>\<open>None\<close>). The keys
  \<^verbatim>\<open>optimizer\<close> and \<^verbatim>\<open>optimizer_kwargs\<close> select the optimizer of the \<open>engine\<close>.\<close>

record settings =
  num_epochs :: int
  freeze_backbone :: bool
  patience :: int
  batch_size :: int
  lr :: real
  wd :: real
  clip_val :: "real option"

record user_settings =
  u_num_epochs :: "int option"
  u_freeze_backbone :: "bool option"
  u_patience :: "int option"
  u_batch_size :: "int option"
  u_lr :: "real option"
  u_wd :: "real option"
  u_clip_val :: "real option option"

definition default_opt_settings :: settings where
  "default_opt_settings =
     \<lparr>num_epochs = 10000, freeze_backbone = False, patience = 100, batch_size = 32,
      lr = 1 / 1000, wd = 1 / 10000, clip_val = Some 1\<rparr>"

text \<open>\<^verbatim>\<open>{**default_opt_settings, **optimization_settings}\<close>: the caller's keys win.\<close>

definition merge_settings :: "user_settings option \<Rightarrow> settings" where
  "merge_settings optimization_settings =
     (case optimization_settings of
        None \<Rightarrow> default_opt_settings
      | Some u \<Rightarrow>
          \<lparr>num_epochs = (case u_num_epochs u of None \<Rightarrow> num_epochs default_opt_settings | Some v \<Rightarrow> v),
           freeze_backbone =
             (case u_freeze_backbone u of None \<Rightarrow> freeze_backbone default_opt_settings | Some v \<Rightarrow> v),
           patience = (case u_patience u of None \<Rightarrow> patience default_opt_settings | Some v \<Rightarrow> v),
           batch_size = (case u_batch_size u of None \<Rightarrow> batch_size default_opt_settings | Some v \<Rightarrow> v),
           lr = (case u_lr u of None \<Rightarrow> lr default_opt_settings | Some v \<Rightarrow> v),
           wd = (case u_wd u of None \<Rightarrow> wd default_opt_settings | Some v \<Rightarrow> v),
           clip_val = (case u_clip_val u of None \<Rightarrow> clip_val default_opt_settings | Some v \<Rightarrow> v)\<rparr>)"

subsection \<open>The data set and the data loader\<close>

text \<open>\<^verbatim>\<open>[[train_X[i], train_y[i]] for i, _ in enumerate(train_X)]\<close>: one example per
  row of \<^verbatim>\<open>train_X\<close>; a missing row of \<^verbatim>\<open>train_y\<close> raises.\<close>

definition make_dataset :: "'x list \<Rightarrow> 'y list \<Rightarrow> error + ('x \<times> 'y) list" where
  "make_dataset train_X train_y =
     (if length train_y < length train_X then Inl IndexError
      else Inr (map (\<lambda>i. (train_X ! i, train_y ! i)) [0..<length train_X]))"

record ('x, 'y) dataloader =
  dl_dataset :: "('x \<times> 'y) list"
  dl_batch_size :: nat

text \<open>\<^verbatim>\<open>DataLoader(dataset, shuffle=True, batch_size=...)\<close>: the batch size must be
  positive, and the random sampler refuses an empty data set.\<close>

definition DataLoader :: "('x \<times> 'y) list \<Rightarrow> int \<Rightarrow> error + ('x, 'y) dataloader" where
  "DataLoader dataset bs =
     (if bs \<le> 0 \<or> dataset = [] then Inl ValueError
      else Inr \<lparr>dl_dataset = dataset, dl_batch_size = nat bs\<rparr>)"

text \<open>\<^verbatim>\<open>len(dataloader)\<close> with \<^verbatim>\<open>drop_last=False\<close>: the number of examples over the
  batch size, rounded up.\<close>

definition len_dataloader :: "('x, 'y) dataloader \<Rightarrow> nat" where
  "len_dataloader dl = (length (dl_dataset dl) + dl_batch_size dl - 1) div dl_batch_size dl"

fun chunk :: "nat \<Rightarrow> 'a list \<Rightarrow> 'a list list" where
  "chunk n xs = (if n = 0 \<or> xs = [] then [] else take n xs # chunk n (drop n xs))"

declare chunk.simps [simp del]

text \<open>The mini-batches of one pass over the loader, in epoch \<open>epoch\<close>.\<close>

definition batches ::
  "('x, 'y, 'os) engine \<Rightarrow> int \<Rightarrow> ('x, 'y) dataloader \<Rightarrow> ('x \<times> 'y) list list" where
  "batches env epoch dl = chunk (dl_batch_size dl) (shuffle env epoch (dl_dataset dl))"

subsection \<open>State dicts\<close>

text \<open>\<^verbatim>\<open>self.model.state_dict()\<close>: the named parameters, each entry a reference to the
  parameter's own storage (no copy is made).\<close>

definition state_dict :: "bll_model \<Rightarrow> state_dict" where
  "state_dict m = backbone_params m @ head_params m"

text \<open>\<^verbatim>\<open>self.model.parameters()\<close>, \<^verbatim>\<open>self.model.head.parameters()\<close> and
  \<^verbatim>\<open>self.model.backbone.parameters()\<close>.\<close>

definition parameters :: "bll_model \<Rightarrow> addr list" where
  "parameters m = map snd (state_dict m)"

definition head_parameters :: "bll_model \<Rightarrow> addr list" where
  "head_parameters m = map snd (head_params m)"

definition backbone_parameters :: "bll_model \<Rightarrow> addr list" where
  "backbone_parameters m = map snd (backbone_params m)"

text \<open>\<^verbatim>\<open>param.copy_(input_param)\<close> for every own parameter, by name; a missing key or
  a tensor of another shape raises.\<close>

fun copy_params :: "state_dict \<Rightarrow> state_dict \<Rightarrow> (addr \<Rightarrow> tensor) \<Rightarrow> error + (addr \<Rightarrow> tensor)" where
  "copy_params [] sd h = Inr h"
| "copy_params ((name, a) # ps) sd h =
     (case map_of sd name of
        None \<Rightarrow> Inl RuntimeError
      | Some a' \<Rightarrow>
          if shape (h a') \<noteq> shape (h a) then Inl RuntimeError
          else copy_params ps sd (h(a := h a')))"

text \<open>\<^verbatim>\<open>self.model.load_state_dict(sd)\<close> (strict): an unexpected key raises too.\<close>

definition load_state_dict :: "bll_model \<Rightarrow> state_dict \<Rightarrow> error + bll_model" where
  "load_state_dict m sd =
     (if list_ex (\<lambda>(name, a). name \<notin> fst ` set (state_dict m)) sd then Inl RuntimeError
      else and_then (copy_params (state_dict m) sd (heap m)) (\<lambda>h. Inr (m\<lparr>heap := h\<rparr>)))"

subsection \<open>\<^verbatim>\<open>AbstractBLLModel.set_reg_weight\<close>\<close>

definition set_reg_weight :: "bll_model \<Rightarrow> real \<Rightarrow> bll_model" where
  "set_reg_weight m new_weight = m\<lparr>regularization_weight := new_weight\<rparr>"

subsection \<open>One optimization step\<close>

text \<open>The parameter groups \<^verbatim>\<open>fit\<close> hands to the optimizer.\<close>

definition param_list :: "settings \<Rightarrow> bll_model \<Rightarrow> param_group list" where
  "param_list s m =
     [\<lparr>params = head_parameters m, weight_decay = 0\<rparr>]
     @ (if \<not> freeze_backbone s
        then [\<lparr>params = backbone_parameters m, weight_decay = wd s\<rparr>] else [])"

text \<open>\<^verbatim>\<open>optimizer.zero_grad()\<close> resets the gradient of the optimizer's parameters
  only; \<^verbatim>\<open>loss.backward()\<close> adds the new gradient to the \<^verbatim>\<open>.grad\<close> of every
  parameter of the network (all of them take part in the loss), frozen or not.\<close>

definition zero_grad :: "param_group list \<Rightarrow> bll_model \<Rightarrow> bll_model" where
  "zero_grad groups m =
     m\<lparr>grads := (\<lambda>a. if a \<in> set (concat (map params groups)) then None else grads m a)\<rparr>"

definition tadd :: "tensor \<Rightarrow> tensor \<Rightarrow> tensor" where
  "tadd a b = a\<lparr>data := map2 (+) (data a) (data b)\<rparr>"

definition accumulate_grad :: "bll_model \<Rightarrow> (addr \<Rightarrow> tensor) \<Rightarrow> bll_model" where
  "accumulate_grad m g =
     m\<lparr>grads := (\<lambda>a. if a \<in> set (parameters m)
                      then Some (case grads m a of None \<Rightarrow> g a | Some old \<Rightarrow> tadd old (g a))
                      else grads m a)\<rparr>"

text \<open>\<^verbatim>\<open>optimizer.step()\<close>: every parameter of every group that has a gradient is
  updated in place.\<close>

definition update_param ::
  "('x, 'y, 'os) engine \<Rightarrow> real \<Rightarrow> addr \<Rightarrow> bll_model \<times> 'os \<Rightarrow> bll_model \<times> 'os" where
  "update_param env decay a st =
     (case grads (fst st) a of
        None \<Rightarrow> st
      | Some g \<Rightarrow>
          (let (v, os') = opt_update env (snd st) decay (heap (fst st) a) g
           in ((fst st)\<lparr>heap := (heap (fst st))(a := v)\<rparr>, os')))"

definition optimizer_step ::
  "('x, 'y, 'os) engine \<Rightarrow> param_group list \<Rightarrow> bll_model \<times> 'os \<Rightarrow> bll_model \<times> 'os" where
  "optimizer_step env groups st =
     fold (\<lambda>g. fold (update_param env (weight_decay g)) (params g)) groups st"

text \<open>The body of the loop over the mini-batches: the state is the network, the
  optimizer's state and \<^verbatim>\<open>running_loss\<close>.\<close>

definition train_step ::
  "('x, 'y, 'os) engine \<Rightarrow> settings \<Rightarrow> param_group list \<Rightarrow> ('x \<times> 'y) list
   \<Rightarrow> bll_model \<times> 'os \<times> pyfloat list \<Rightarrow> bll_model \<times> 'os \<times> pyfloat list" where
  "train_step env s groups batch st =
     (let (m, os, running_loss) = st;
          m1 = zero_grad groups m;
          loss = train_loss env m1 batch;
          m2 = accumulate_grad m1 (backward env m1 batch);
          m3 = (case clip_val s of
                  None \<Rightarrow> m2
                | Some c \<Rightarrow> m2\<lparr>grads := clip_grad_norm env c (parameters m2) (grads m2)\<rparr>);
          (m4, os') = optimizer_step env groups (m3, os)
      in (m4, os', running_loss @ [loss]))"

text \<open>\<^verbatim>\<open>running_loss[-n:]\<close>: the last \<open>n\<close> elements (all of them when \<open>n\<close> is 0 or
  exceeds the length).\<close>

definition py_last :: "nat \<Rightarrow> 'a list \<Rightarrow> 'a list" where
  "py_last n xs = (if n = 0 then xs else drop (length xs - n) xs)"

text \<open>\<^verbatim>\<open>sum(running_loss[-len(dataloader):]) / len(dataloader)\<close>.\<close>

definition avg_loss :: "pyfloat list \<Rightarrow> nat \<Rightarrow> error + pyfloat" where
  "avg_loss running_loss n = fdiv_int (fsum (py_last n running_loss)) n"

subsection \<open>The epoch loop of \<^verbatim>\<open>fit\<close>\<close>

record 'os loop_state =
  cur :: bll_model
  opt_state :: 'os
  best_loss :: pyfloat
  epochs_no_improve :: nat
  early_stop :: bool
  best_model_state :: "state_dict option"

text \<open>The loop over the mini-batches of one epoch, from \<^verbatim>\<open>running_loss = []\<close>.\<close>

definition train_epoch ::
  "('x, 'y, 'os) engine \<Rightarrow> settings \<Rightarrow> param_group list \<Rightarrow> ('x \<times> 'y) list list
   \<Rightarrow> bll_model \<times> 'os \<Rightarrow> bll_model \<times> 'os \<times> pyfloat list" where
  "train_epoch env s groups bs st = fold (train_step env s groups) bs (fst st, snd st, [])"

text \<open>One iteration of the loop over the epochs, after its \<^verbatim>\<open>if early_stop: break\<close>.\<close>

definition run_epoch ::
  "('x, 'y, 'os) engine \<Rightarrow> settings \<Rightarrow> ('x, 'y) dataloader \<Rightarrow> param_group list \<Rightarrow> int
   \<Rightarrow> 'os loop_state \<Rightarrow> error + 'os loop_state" where
  "run_epoch env s dl groups epoch ls =
     (let (m', os', running_loss) =
            train_epoch env s groups (batches env epoch dl) (cur ls, opt_state ls)
      in and_then (avg_loss running_loss (len_dataloader dl)) (\<lambda>avg.
           let ls1 = (if flt avg (best_loss ls)
                      then ls\<lparr>cur := m', opt_state := os', best_loss := avg,
                              best_model_state := Some (state_dict m'), epochs_no_improve := 0\<rparr>
                      else ls\<lparr>cur := m', opt_state := os',
                              epochs_no_improve := epochs_no_improve ls + 1\<rparr>)
           in Inr (if patience s \<le> int (epochs_no_improve ls1)
                   then ls1\<lparr>early_stop := True\<rparr> else ls1)))"

fun epoch_loop ::
  "('x, 'y, 'os) engine \<Rightarrow> settings \<Rightarrow> ('x, 'y) dataloader \<Rightarrow> param_group list \<Rightarrow> int list
   \<Rightarrow> 'os loop_state \<Rightarrow> error + 'os loop_state" where
  "epoch_loop env s dl groups [] ls = Inr ls"
| "epoch_loop env s dl groups (epoch # es) ls =
     (if early_stop ls then Inr ls
      else and_then (run_epoch env s dl groups epoch ls) (epoch_loop env s dl groups es))"

subsection \<open>\<^verbatim>\<open>AbstractBLLModel.fit\<close>\<close>

text \<open>\<^verbatim>\<open>self.model.kl_scale / len(train_y)\<close>.\<close>

definition py_div :: "real \<Rightarrow> nat \<Rightarrow> error + real" where
  "py_div a n = (if n = 0 then Inl ZeroDivisionError else Inr (a / real n))"

text \<open>\<^verbatim>\<open>if initialization_params is not None: self.model.load_state_dict(...)\<close>.\<close>

definition warm_start :: "bll_model \<Rightarrow> state_dict option \<Rightarrow> error + bll_model" where
  "warm_start m initialization_params =
     (case initialization_params of None \<Rightarrow> Inr m | Some sd \<Rightarrow> load_state_dict m sd)"

text \<open>The state of the loop at its start.\<close>

definition initial_loop_state :: "bll_model \<Rightarrow> 'os \<Rightarrow> 'os loop_state" where
  "initial_loop_state m os =
     \<lparr>cur = m\<lparr>training := True\<rparr>, opt_state = os, best_loss = PInf, epochs_no_improve = 0,
      early_stop = False, best_model_state = None\<rparr>"

text \<open>The part of \<^verbatim>\<open>fit\<close> before the optimizer is built: the data set, the data
  loader, the optional warm start and the regularization weight, under the
  merged settings \<open>s\<close>.\<close>

definition fit_setup ::
  "bll_model \<Rightarrow> 'x list \<Rightarrow> 'y list \<Rightarrow> settings \<Rightarrow> state_dict option
   \<Rightarrow> error + (('x, 'y) dataloader \<times> bll_model)" where
  "fit_setup m train_X train_y s initialization_params =
     and_then (make_dataset train_X train_y) (\<lambda>dataset.
     and_then (DataLoader dataset (batch_size s)) (\<lambda>dataloader.
     and_then (warm_start m initialization_params) (\<lambda>m1.
     and_then (py_div (kl_scale m1) (length train_y)) (\<lambda>w.
       Inr (dataloader, set_reg_weight m1 w)))))"

text \<open>\<^verbatim>\<open>fit\<close> up to the end of its loop over the epochs: the state of the loop
  when it is left.\<close>

definition fit_epochs ::
  "('x, 'y, 'os) engine \<Rightarrow> bll_model \<Rightarrow> 'x list \<Rightarrow> 'y list \<Rightarrow> user_settings option
   \<Rightarrow> state_dict option \<Rightarrow> error + 'os loop_state" where
  "fit_epochs env m train_X train_y optimization_settings initialization_params =
     (let s = merge_settings optimization_settings
      in and_then (fit_setup m train_X train_y s initialization_params) (\<lambda>(dataloader, m2).
           let groups = param_list s m2;
               optimizer = opt_init env groups (lr s)
           in epoch_loop env s dataloader groups [1..num_epochs s]
                (initial_loop_state m2 optimizer)))"

text \<open>\<^verbatim>\<open>fit\<close>: the model it leaves behind, or the exception it raises. After the
  loop, \<^verbatim>\<open>best_model_state\<close> is loaded if it is not \<^verbatim>\<open>None\<close>. The closing
  diagnostic \<^verbatim>\<open>print\<close> is not modelled.\<close>

definition fit ::
  "('x, 'y, 'os) engine \<Rightarrow> bll_model \<Rightarrow> 'x list \<Rightarrow> 'y list \<Rightarrow> user_settings option
   \<Rightarrow> state_dict option \<Rightarrow> error + bll_model" where
  "fit env m train_X train_y optimization_settings initialization_params =
     and_then (fit_epochs env m train_X train_y optimization_settings initialization_params)
       (\<lambda>ls. case best_model_state ls of
                None \<Rightarrow> Inr (cur ls)
              | Some sd \<Rightarrow> load_state_dict (cur ls) sd)"

subsection \<open>Notions used in the statements\<close>

text \<open>\<^verbatim>\<open>a <= b\<close> on floats.\<close>

definition fle :: "pyfloat \<Rightarrow> pyfloat \<Rightarrow> bool" where
  "fle a b = (a = b \<or> flt a b)"

text \<open>The arithmetic mean of a list of floats: their sum over their number.\<close>

definition mean_loss :: "pyfloat list \<Rightarrow> pyfloat" where
  "mean_loss xs =
     (case fsum xs of Fin a \<Rightarrow> Fin (a / real (length xs)) | PInf \<Rightarrow> PInf | NInf \<Rightarrow> NInf | NaN \<Rightarrow> NaN)"

text \<open>Everything of a model but its heap and its gradients.\<close>

definition attrs ::
  "bll_model \<Rightarrow> nat \<times> nat \<times> real \<times> state_dict \<times> state_dict \<times> real \<times> bool" where
  "attrs m = (num_inputs m, num_outputs m, kl_scale m, backbone_params m, head_params m,
              regularization_weight m, training m)"

text \<open>The parameters an optimizer built over \<open>groups\<close> updates.\<close>

definition group_params :: "param_group list \<Rightarrow> addr set" where
  "group_params groups = set (concat (map params groups))"

subsection \<open>A concrete instance\<close>

text \<open>
  A small network for the closed evaluations below: an identity backbone (so the
  hidden width is the input width) that owns one weight at address 0, a head
  that owns one weight \<open>w\<close> at address 1, predicts mean 0 and variance
  \<open>1 + i\<close> for point \<open>i\<close> and draws the all-ones weight sample, the training
  loss \<open>w\<^sup>2\<close> with its gradient \<open>2 w\<close>, and plain gradient descent with weight
  decay as the optimizer. Gradient clipping is switched off in the settings the
  evaluations use, and the loader's permutation is the identity.
\<close>

definition vec1 :: "real \<Rightarrow> tensor" where
  "vec1 c = \<lparr>shape = [1], data = [c]\<rparr>"

definition demo_engine :: "(real, real, real) engine" where
  "demo_engine =
     \<lparr>backbone_apply = (\<lambda>m x. x),
      head_predictive = (\<lambda>m f.
        (tabulate [shape f ! 0, num_outputs m] (\<lambda>idx. 0),
         tabulate [shape f ! 0, num_outputs m] (\<lambda>idx. 1 + real (idx ! 0)))),
      head_rsample = (\<lambda>m sample_shape. tabulate (sample_shape @ [num_outputs m, num_inputs m]) (\<lambda>idx. 1)),
      train_loss = (\<lambda>m batch. Fin ((hd (data (heap m 1)))\<^sup>2)),
      backward = (\<lambda>m batch a. vec1 (if a = 1 then 2 * hd (data (heap m 1)) else 0)),
      clip_grad_norm = (\<lambda>c ps g. g),
      opt_init = (\<lambda>groups rate. rate),
      opt_update = (\<lambda>rate decay p g.
        (p\<lparr>data := map2 (\<lambda>x d. x - rate * (d + decay * x)) (data p) (data g)\<rparr>, rate)),
      shuffle = (\<lambda>epoch xs. xs)\<rparr>"

definition demo_model :: "nat \<Rightarrow> nat \<Rightarrow> bll_model" where
  "demo_model D K =
     \<lparr>num_inputs = D, num_outputs = K, kl_scale = 2,
      backbone_params = [(''backbone.0.weight'', 0)], head_params = [(''head.W_mean'', 1)],
      regularization_weight = 1, training = True,
      heap = (\<lambda>a. vec1 (if a = 7 then 5 else 1)), grads = (\<lambda>a. None)\<rparr>"

text \<open>Two epochs at learning rate \<open>3/2\<close>, no clipping: gradient descent on \<open>w\<^sup>2\<close>
  overshoots, \<open>w\<close> goes \<open>1, -2, 4\<close> and the epoch losses are \<open>1, 4\<close>.\<close>

definition demo_settings :: user_settings where
  "demo_settings =
     \<lparr>u_num_epochs = Some 2, u_freeze_backbone = None, u_patience = None, u_batch_size = Some 8,
      u_lr = Some (3 / 2), u_wd = None, u_clip_val = Some None\<rparr>"

text \<open>A state dict held by the caller: tensors at addresses 7 and 8.\<close>

definition demo_checkpoint :: state_dict where
  "demo_checkpoint = [(''backbone.0.weight'', 7), (''head.W_mean'', 8)]"

text \<open>An input of \<open>N\<close> points with \<open>D\<close> features.\<close>

definition demo_X :: "nat \<Rightarrow> nat \<Rightarrow> tensor" where
  "demo_X N D = tabulate [N, D] (\<lambda>idx. 0)"

section \<open>Properties\<close>

subsection \<open>Tensors: shapes and entries\<close>

lemma data_tabulate_nth:
  "k < prod_list s \<Longrightarrow> data (tabulate s f) ! k = f (unravel s k)"
  by (simp add: tabulate_def)

lemma flat_index:
  fixes i j N :: nat
  assumes "i < N" and "j < N"
  shows "i * N + j < N * N" and "(i * N + j) div N = i" and "(i * N + j) mod N = j"
proof -
  have "i * N + j < i * N + N" using assms(2) by simp
  also have "\<dots> = Suc i * N" by simp
  also have "\<dots> \<le> N * N"
  proof (rule mult_le_mono1)
    show "Suc i \<le> N" using assms(1) by simp
  qed
  finally show "i * N + j < N * N" .
  show "(i * N + j) div N = i" using assms(2) by simp
  show "(i * N + j) mod N = j" using assms(2) by simp
qed

lemma shape_tabulate [simp]: "shape (tabulate s f) = s"
  by (simp add: tabulate_def)

lemma ravel_less:
  "valid_index s idx \<Longrightarrow> ravel s idx < prod_list s"
  unfolding valid_index_def
proof (induction s idx rule: ravel.induct)
  case (1 d ds i js)
  then have i: "i < d" and r: "ravel ds js < prod_list ds" by simp_all
  have "i * prod_list ds + ravel ds js < i * prod_list ds + prod_list ds"
    using r by simp
  also have "\<dots> = Suc i * prod_list ds" by simp
  also have "\<dots> \<le> d * prod_list ds"
  proof (rule mult_le_mono1)
    show "Suc i \<le> d" using i by simp
  qed
  finally show ?case by simp
qed simp_all

lemma unravel_ravel:
  "valid_index s idx \<Longrightarrow> unravel s (ravel s idx) = idx"
  unfolding valid_index_def
proof (induction s idx rule: ravel.induct)
  case (1 d ds i js)
  then have v: "valid_index ds js" by (simp add: valid_index_def)
  from ravel_less [OF v] have r: "ravel ds js < prod_list ds" .
  from 1 v show ?case using r by (simp add: valid_index_def)
qed simp_all

lemma tget_tabulate:
  "valid_index s idx \<Longrightarrow> tget (tabulate s f) idx = f idx"
  using ravel_less [of s idx] unravel_ravel [of s idx]
  by (simp add: tget_def tabulate_def)

text \<open>Broadcasting a shape with itself, or with no batch dimensions.\<close>

lemma broadcast_shapes_Nil [simp]: "broadcast_shapes [] b = Some b"
  by (simp add: broadcast_shapes_def)

lemma broadcast_rev_same [simp]: "broadcast_rev xs xs = Some xs"
  by (induction xs) auto

lemma broadcast_shapes_same [simp]: "broadcast_shapes a a = Some a"
  by (simp add: broadcast_shapes_def)

lemma well_formed_tabulate [simp]: "well_formed (tabulate s f)"
  by (simp add: tabulate_def well_formed_def)

subsection \<open>What an optimization step leaves alone\<close>

lemma and_then_simps [simp]:
  "and_then (Inl e) f = Inl e" "and_then (Inr v) f = f v"
  by (simp_all add: and_then_def)

lemma and_then_eq_Inr:
  "and_then r f = Inr y \<longleftrightarrow> (\<exists>v. r = Inr v \<and> f v = Inr y)"
  by (cases r) simp_all

lemma update_param_attrs: "attrs (fst (update_param env d a st)) = attrs (fst st)"
  by (simp add: update_param_def attrs_def split: option.splits prod.splits)

lemma update_param_heap:
  "b \<noteq> a \<Longrightarrow> heap (fst (update_param env d a st)) b = heap (fst st) b"
  by (simp add: update_param_def split: option.splits prod.splits)

lemma fold_update_param_attrs:
  "attrs (fst (fold (update_param env d) ps st)) = attrs (fst st)"
  by (induction ps arbitrary: st) (simp_all add: update_param_attrs)

lemma fold_update_param_heap:
  "b \<notin> set ps \<Longrightarrow> heap (fst (fold (update_param env d) ps st)) b = heap (fst st) b"
  by (induction ps arbitrary: st) (simp_all add: update_param_heap)

lemma optimizer_step_attrs: "attrs (fst (optimizer_step env groups st)) = attrs (fst st)"
  unfolding optimizer_step_def
  by (induction groups arbitrary: st) (simp_all add: fold_update_param_attrs)

lemma optimizer_step_heap:
  "b \<notin> group_params groups \<Longrightarrow> heap (fst (optimizer_step env groups st)) b = heap (fst st) b"
  unfolding optimizer_step_def group_params_def
  by (induction groups arbitrary: st) (simp_all add: fold_update_param_heap)

lemma train_step_attrs: "attrs (fst (train_step env s groups batch st)) = attrs (fst st)"
proof -
  obtain m os rl where st: "st = (m, os, rl)" by (cases st)
  define m3 where "m3 = (let m1 = zero_grad groups m; m2 = accumulate_grad m1 (backward env m1 batch)
     in case clip_val s of None \<Rightarrow> m2
        | Some c \<Rightarrow> m2\<lparr>grads := clip_grad_norm env c (parameters m2) (grads m2)\<rparr>)"
  have a3: "attrs m3 = attrs m"
    by (simp add: m3_def Let_def attrs_def zero_grad_def accumulate_grad_def split: option.splits)
  have "fst (train_step env s groups batch st) = fst (optimizer_step env groups (m3, os))"
    by (simp add: train_step_def st m3_def Let_def split: prod.splits)
  then show ?thesis using optimizer_step_attrs [of env groups "(m3, os)"] a3 st by simp
qed

lemma train_step_heap:
  assumes "b \<notin> group_params groups"
  shows "heap (fst (train_step env s groups batch st)) b = heap (fst st) b"
proof -
  obtain m os rl where st: "st = (m, os, rl)" by (cases st)
  define m3 where "m3 = (let m1 = zero_grad groups m; m2 = accumulate_grad m1 (backward env m1 batch)
     in case clip_val s of None \<Rightarrow> m2
        | Some c \<Rightarrow> m2\<lparr>grads := clip_grad_norm env c (parameters m2) (grads m2)\<rparr>)"
  have a3: "heap m3 = heap m"
    by (simp add: m3_def Let_def zero_grad_def accumulate_grad_def split: option.splits)
  have "fst (train_step env s groups batch st) = fst (optimizer_step env groups (m3, os))"
    by (simp add: train_step_def st m3_def Let_def split: prod.splits)
  then show ?thesis using optimizer_step_heap [OF assms, of env "(m3, os)"] a3 st by simp
qed

lemma fold_train_step_attrs:
  "attrs (fst (fold (train_step env s groups) bs st)) = attrs (fst st)"
  by (induction bs arbitrary: st) (simp_all add: train_step_attrs)

lemma fold_train_step_heap:
  "b \<notin> group_params groups \<Longrightarrow> heap (fst (fold (train_step env s groups) bs st)) b = heap (fst st) b"
  by (induction bs arbitrary: st) (simp_all add: train_step_heap)

lemma train_epoch_attrs: "attrs (fst (train_epoch env s groups bs st)) = attrs (fst st)"
  by (simp add: train_epoch_def fold_train_step_attrs)

lemma train_epoch_heap:
  "b \<notin> group_params groups \<Longrightarrow> heap (fst (train_epoch env s groups bs st)) b = heap (fst st) b"
  by (simp add: train_epoch_def fold_train_step_heap)

lemma state_dict_attrs: "attrs m' = attrs m \<Longrightarrow> state_dict m' = state_dict m"
  by (simp add: attrs_def state_dict_def)

subsection \<open>One epoch and the loop\<close>

text \<open>What one epoch does to the loop state.\<close>

lemma run_epoch_cases:
  assumes "run_epoch env s dl groups e ls = Inr ls'"
  obtains m' os' rl avg where
    "train_epoch env s groups (batches env e dl) (cur ls, opt_state ls) = (m', os', rl)"
    "avg_loss rl (len_dataloader dl) = Inr avg"
    "cur ls' = m'" "opt_state ls' = os'"
    "best_loss ls' = (if flt avg (best_loss ls) then avg else best_loss ls)"
    "epochs_no_improve ls' = (if flt avg (best_loss ls) then 0 else epochs_no_improve ls + 1)"
    "best_model_state ls' = (if flt avg (best_loss ls) then Some (state_dict m') else best_model_state ls)"
    "early_stop ls' = (early_stop ls \<or> patience s \<le> int (epochs_no_improve ls'))"
proof -
  obtain m' os' rl where te:
    "train_epoch env s groups (batches env e dl) (cur ls, opt_state ls) = (m', os', rl)"
    by (cases "train_epoch env s groups (batches env e dl) (cur ls, opt_state ls)")
  from assms te obtain avg where avg: "avg_loss rl (len_dataloader dl) = Inr avg"
    by (auto simp: run_epoch_def and_then_eq_Inr)
  from assms te avg show ?thesis
    by (intro that [of m' os' rl avg]) (auto simp: run_epoch_def Let_def split: if_splits)
qed


lemma flt_trans: "flt a b \<Longrightarrow> flt b c \<Longrightarrow> flt a c"
  by (cases a; cases b; cases c) simp_all

lemma fle_refl [simp]: "fle a a"
  by (simp add: fle_def)

lemma fle_trans: "fle a b \<Longrightarrow> fle b c \<Longrightarrow> fle a c"
  by (auto simp: fle_def dest: flt_trans)

lemma run_epoch_attrs:
  assumes "run_epoch env s dl groups e ls = Inr ls'"
  shows "attrs (cur ls') = attrs (cur ls)"
  using assms train_epoch_attrs [of env s groups "batches env e dl" "(cur ls, opt_state ls)"]
  by (elim run_epoch_cases) simp

lemma run_epoch_heap:
  assumes "run_epoch env s dl groups e ls = Inr ls'" and "b \<notin> group_params groups"
  shows "heap (cur ls') b = heap (cur ls) b"
  using assms train_epoch_heap [of b groups env s "batches env e dl" "(cur ls, opt_state ls)"]
  by (elim run_epoch_cases) simp

lemma run_epoch_best_loss:
  assumes "run_epoch env s dl groups e ls = Inr ls'"
  shows "fle (best_loss ls') (best_loss ls)"
  using assms by (elim run_epoch_cases) (simp add: fle_def)

lemma run_epoch_best_state:
  assumes "run_epoch env s dl groups e ls = Inr ls'"
  shows "best_model_state ls' = best_model_state ls
       \<or> best_model_state ls' = Some (state_dict (cur ls))"
  using assms train_epoch_attrs [of env s groups "batches env e dl" "(cur ls, opt_state ls)"]
  by (elim run_epoch_cases) (auto dest: state_dict_attrs)

lemma epoch_loop_stopped: "early_stop ls \<Longrightarrow> epoch_loop env s dl groups es ls = Inr ls"
  by (cases es) simp_all

lemma epoch_loop_attrs:
  "epoch_loop env s dl groups es ls = Inr ls' \<Longrightarrow> attrs (cur ls') = attrs (cur ls)"
proof (induction es arbitrary: ls)
  case Nil
  then show ?case by simp
next
  case (Cons e es)
  show ?case
  proof (cases "early_stop ls")
    case True
    with Cons.prems show ?thesis by simp
  next
    case False
    with Cons.prems obtain l1 where l1: "run_epoch env s dl groups e ls = Inr l1"
      and rest: "epoch_loop env s dl groups es l1 = Inr ls'"
      by (auto simp: and_then_eq_Inr)
    from Cons.IH [OF rest] run_epoch_attrs [OF l1] show ?thesis by simp
  qed
qed

lemma epoch_loop_heap:
  "epoch_loop env s dl groups es ls = Inr ls' \<Longrightarrow> b \<notin> group_params groups
   \<Longrightarrow> heap (cur ls') b = heap (cur ls) b"
proof (induction es arbitrary: ls)
  case Nil
  then show ?case by simp
next
  case (Cons e es)
  show ?case
  proof (cases "early_stop ls")
    case True
    with Cons.prems show ?thesis by simp
  next
    case False
    with Cons.prems obtain l1 where l1: "run_epoch env s dl groups e ls = Inr l1"
      and rest: "epoch_loop env s dl groups es l1 = Inr ls'"
      by (auto simp: and_then_eq_Inr)
    from Cons.IH [OF rest Cons.prems(2)] run_epoch_heap [OF l1 Cons.prems(2)]
    show ?thesis by simp
  qed
qed

lemma epoch_loop_best_loss:
  "epoch_loop env s dl groups es ls = Inr ls' \<Longrightarrow> fle (best_loss ls') (best_loss ls)"
proof (induction es arbitrary: ls)
  case Nil
  then show ?case by simp
next
  case (Cons e es)
  show ?case
  proof (cases "early_stop ls")
    case True
    with Cons.prems show ?thesis by simp
  next
    case False
    with Cons.prems obtain l1 where l1: "run_epoch env s dl groups e ls = Inr l1"
      and rest: "epoch_loop env s dl groups es l1 = Inr ls'"
      by (auto simp: and_then_eq_Inr)
    from Cons.IH [OF rest] run_epoch_best_loss [OF l1] show ?thesis
      by (rule fle_trans)
  qed
qed

lemma epoch_loop_best_state:
  "epoch_loop env s dl groups es ls = Inr ls'
   \<Longrightarrow> best_model_state ls' = best_model_state ls
     \<or> best_model_state ls' = Some (state_dict (cur ls))"
proof (induction es arbitrary: ls)
  case Nil
  then show ?case by simp
next
  case (Cons e es)
  show ?case
  proof (cases "early_stop ls")
    case True
    with Cons.prems show ?thesis by simp
  next
    case False
    with Cons.prems obtain l1 where l1: "run_epoch env s dl groups e ls = Inr l1"
      and rest: "epoch_loop env s dl groups es l1 = Inr ls'"
      by (auto simp: and_then_eq_Inr)
    from run_epoch_attrs [OF l1] have "state_dict (cur l1) = state_dict (cur ls)"
      by (rule state_dict_attrs)
    with Cons.IH [OF rest] run_epoch_best_state [OF l1] show ?thesis by auto
  qed
qed

subsection \<open>Loading a state dict\<close>

lemma copy_params_self:
  assumes "\<forall>(name, a) \<in> set ps. map_of sd name = Some a"
  shows "copy_params ps sd h = Inr h"
  using assms by (induction ps arbitrary: h) auto

lemma load_state_dict_self:
  assumes "distinct (map fst (state_dict m))"
  shows "load_state_dict m (state_dict m) = Inr m"
proof -
  have "\<forall>(name, a) \<in> set (state_dict m). map_of (state_dict m) name = Some a"
    using assms by auto
  then have "copy_params (state_dict m) (state_dict m) (heap m) = Inr (heap m)"
    by (rule copy_params_self)
  moreover have "\<not> list_ex (\<lambda>(name, a). name \<notin> fst ` set (state_dict m)) (state_dict m)"
    by (force simp: list_ex_iff image_iff)
  ultimately show ?thesis by (simp add: load_state_dict_def)
qed

lemma load_state_dict_attrs:
  "load_state_dict m sd = Inr m' \<Longrightarrow> attrs m' = attrs m"
  by (auto simp: load_state_dict_def and_then_eq_Inr attrs_def split: if_splits)

lemma load_state_dict_grads:
  "load_state_dict m sd = Inr m' \<Longrightarrow> grads m' = grads m"
  by (auto simp: load_state_dict_def and_then_eq_Inr split: if_splits)

lemma warm_start_attrs: "warm_start m init = Inr m1 \<Longrightarrow> attrs m1 = attrs m"
  by (cases init) (auto simp: warm_start_def dest: load_state_dict_attrs)

subsection \<open>The structure of a call of \<^verbatim>\<open>fit\<close> that returns\<close>

lemma fit_setup_cases:
  assumes "fit_setup m train_X train_y s init = Inr (dl, m2)"
  obtains m1 where
    "warm_start m init = Inr m1"
    "m2 = set_reg_weight m1 (kl_scale m1 / real (length train_y))"
    "length train_y \<noteq> 0"
    "DataLoader (map (\<lambda>i. (train_X ! i, train_y ! i)) [0..<length train_X]) (batch_size s) = Inr dl"
    "length train_X \<le> length train_y"
  using assms
  by (auto simp: fit_setup_def and_then_eq_Inr make_dataset_def py_div_def split: if_splits)

lemma fit_epochs_cases:
  assumes "fit_epochs env m train_X train_y us init = Inr ls"
  obtains dl m2 where
    "fit_setup m train_X train_y (merge_settings us) init = Inr (dl, m2)"
    "epoch_loop env (merge_settings us) dl (param_list (merge_settings us) m2)
       [1..num_epochs (merge_settings us)]
       (initial_loop_state m2 (opt_init env (param_list (merge_settings us) m2) (lr (merge_settings us))))
     = Inr ls"
proof -
  define s where "s = merge_settings us"
  from assms obtain p where
    p: "fit_setup m train_X train_y s init = Inr p" and
    rest: "(case p of (dl, m2) \<Rightarrow>
       epoch_loop env s dl (param_list s m2) [1..num_epochs s]
         (initial_loop_state m2 (opt_init env (param_list s m2) (lr s)))) = Inr ls"
    unfolding fit_epochs_def s_def [symmetric] Let_def and_then_eq_Inr by blast
  obtain dl m2 where pq: "p = (dl, m2)" by (cases p)
  from rest have loop: "epoch_loop env s dl (param_list s m2) [1..num_epochs s]
      (initial_loop_state m2 (opt_init env (param_list s m2) (lr s))) = Inr ls"
    unfolding pq prod.case .
  from p pq have stp: "fit_setup m train_X train_y s init = Inr (dl, m2)" by simp
  from stp [unfolded s_def] loop [unfolded s_def] show ?thesis
    by (rule that)
qed

lemma fit_unfold:
  assumes "fit env m train_X train_y us init = Inr m'"
  obtains ls where
    "fit_epochs env m train_X train_y us init = Inr ls"
    "(case best_model_state ls of None \<Rightarrow> Inr (cur ls) | Some sd \<Rightarrow> load_state_dict (cur ls) sd)
     = Inr m'"
  using assms unfolding fit_def and_then_eq_Inr by blast

text \<open>After the loop, the network has the parameter names it came with, and
  \<^verbatim>\<open>best_model_state\<close> is \<^verbatim>\<open>None\<close> or the network's own state dict.\<close>

lemma fit_epochs_state_dict:
  assumes "fit_epochs env m train_X train_y us init = Inr ls"
  shows "state_dict (cur ls) = state_dict m"
    and "best_model_state ls = None \<or> best_model_state ls = Some (state_dict (cur ls))"
proof -
  define s where "s = merge_settings us"
  from assms obtain dl m2 where
    stp: "fit_setup m train_X train_y s init = Inr (dl, m2)" and
    loop0: "epoch_loop env s dl (param_list s m2) [1..num_epochs s]
       (initial_loop_state m2 (opt_init env (param_list s m2) (lr s))) = Inr ls"
    unfolding s_def by (rule fit_epochs_cases)
  define ls0 where "ls0 = initial_loop_state m2 (opt_init env (param_list s m2) (lr s))"
  note loop = loop0 [folded ls0_def]
  from stp obtain m1 where
    m1: "warm_start m init = Inr m1" and
    m2: "m2 = set_reg_weight m1 (kl_scale m1 / real (length train_y))"
    by (elim fit_setup_cases) blast
  have "attrs m1 = attrs m"
    using m1 by (rule warm_start_attrs)
  then have sd2: "state_dict m2 = state_dict m"
    by (simp add: m2 set_reg_weight_def state_dict_def attrs_def)
  have cur0: "state_dict (cur ls0) = state_dict m"
    using sd2 by (simp add: ls0_def initial_loop_state_def state_dict_def)
  have none0: "best_model_state ls0 = None"
    by (simp add: ls0_def initial_loop_state_def)
  from state_dict_attrs [OF epoch_loop_attrs [OF loop]]
  show sdl: "state_dict (cur ls) = state_dict m"
    using cur0 by simp
  from epoch_loop_best_state [OF loop]
  show "best_model_state ls = None \<or> best_model_state ls = Some (state_dict (cur ls))"
    using cur0 sdl none0 by simp
qed

text \<open>The state dict that \<^verbatim>\<open>fit\<close> loads at its end holds the network's own tensors,
  so loading it changes nothing: \<^verbatim>\<open>fit\<close> returns the network as the last epoch
  trained left it.\<close>

lemma fit_cases:
  assumes "fit env m train_X train_y us init = Inr m'"
    and "distinct (map fst (state_dict m))"
  obtains ls where
    "fit_epochs env m train_X train_y us init = Inr ls"
    "m' = cur ls"
proof -
  from assms(1) obtain ls where
    ep: "fit_epochs env m train_X train_y us init = Inr ls" and
    fin: "(case best_model_state ls of None \<Rightarrow> Inr (cur ls) | Some sd \<Rightarrow> load_state_dict (cur ls) sd)
     = Inr m'"
    by (rule fit_unfold)
  note sd = fit_epochs_state_dict [OF ep]
  have "m' = cur ls"
    using fin load_state_dict_self [of "cur ls"] assms(2) sd by auto
  with ep show ?thesis by (rule that)
qed

subsection \<open>Mini-batches and the epoch average\<close>

lemma ceil_div_nat:
  assumes "0 < n"
  shows "nat \<lceil>real k / real n\<rceil> = (k + n - 1) div n"
proof -
  define z where "z = (k + n - 1) div n"
  have a: "z * n \<le> k + n - 1"
    unfolding z_def by (rule div_times_less_eq_dividend)
  have b: "k + n - 1 < n + z * n"
    unfolding z_def using assms by (rule dividend_less_div_times)
  from a assms have "z * n < k + n" by linarith
  then have "real (z * n) < real (k + n)" by (simp only: of_nat_less_iff)
  then have a': "real z * real n < real k + real n" by simp
  from b assms have "k \<le> z * n" by linarith
  then have "real k \<le> real (z * n)" by (simp only: of_nat_le_iff)
  then have b': "real k \<le> real z * real n" by simp
  have "\<lceil>real k / real n\<rceil> = int z"
  proof (rule ceiling_unique)
    show "of_int (int z) - 1 < real k / real n"
      using a' assms by (simp add: field_simps)
    show "real k / real n \<le> of_int (int z)"
      using b' assms by (simp add: field_simps)
  qed
  then show ?thesis by (simp add: z_def)
qed

lemma length_chunk: "0 < n \<Longrightarrow> length (chunk n xs) = (length xs + n - 1) div n"
proof (induction n xs rule: chunk.induct)
  case (1 n xs)
  show ?case
  proof (cases "xs = []")
    case True
    with 1 show ?thesis by (simp add: chunk.simps)
  next
    case False
    then have L: "0 < length xs" by simp
    have "length (chunk n xs) = Suc (length (chunk n (drop n xs)))"
      using False 1(2) by (subst chunk.simps) simp
    also have "\<dots> = Suc ((length xs - n + n - 1) div n)"
      using 1 False by simp
    also have "(length xs - n + n - 1) div n = (length xs - 1) div n"
    proof (cases "n \<le> length xs")
      case True
      then show ?thesis by simp
    next
      case False
      with L 1(2) show ?thesis by simp
    qed
    also have "Suc ((length xs - 1) div n) = (length xs - 1 + n) div n"
      using 1(2) by simp
    also have "length xs - 1 + n = length xs + n - 1"
      using L by arith
    finally show ?thesis .
  qed
qed

lemma py_last_all: "n = length xs \<Longrightarrow> py_last n xs = xs"
  by (simp add: py_last_def)

text \<open>The mini-batch loop records one loss per batch.\<close>

lemma train_step_losses:
  "snd (snd (train_step env s groups batch (m, os, rl)))
     = rl @ [train_loss env (zero_grad groups m) batch]"
  by (simp add: train_step_def Let_def split: prod.splits)

lemma train_epoch_snoc:
  "train_epoch env s groups (bs @ [b]) st
   = train_step env s groups b (train_epoch env s groups bs st)"
  by (simp add: train_epoch_def)

lemma train_epoch_losses:
  "snd (snd (train_epoch env s groups bs st))
   = map (\<lambda>k. train_loss env (zero_grad groups (fst (train_epoch env s groups (take k bs) st))) (bs ! k))
       [0..<length bs]"
proof (induction bs rule: rev_induct)
  case Nil
  then show ?case by (simp add: train_epoch_def)
next
  case (snoc b bs)
  obtain m1 os1 rl1 where te: "train_epoch env s groups bs st = (m1, os1, rl1)"
    by (cases "train_epoch env s groups bs st")
  have "snd (snd (train_epoch env s groups (bs @ [b]) st)) = rl1 @ [train_loss env (zero_grad groups m1) b]"
    by (simp add: train_epoch_snoc te train_step_losses)
  moreover have "rl1 = map (\<lambda>k. train_loss env (zero_grad groups (fst (train_epoch env s groups (take k bs) st))) (bs ! k)) [0..<length bs]"
    using snoc.IH te by simp
  ultimately show ?case
    using te by (simp add: nth_append)
qed


lemma DataLoader_cases:
  assumes "DataLoader dataset bs = Inr dl"
  shows "0 < bs" and "dataset \<noteq> []" and "dl_dataset dl = dataset" and "dl_batch_size dl = nat bs"
proof -
  have c: "\<not> (bs \<le> 0 \<or> dataset = [])"
    using assms unfolding DataLoader_def by (metis sum.distinct(1))
  then show "0 < bs" and "dataset \<noteq> []" by simp_all
  from assms c have "dl = \<lparr>dl_dataset = dataset, dl_batch_size = nat bs\<rparr>"
    unfolding DataLoader_def by simp
  then show "dl_dataset dl = dataset" and "dl_batch_size dl = nat bs" by simp_all
qed

lemma len_dataloader_pos:
  assumes "DataLoader dataset bs = Inr dl"
  shows "0 < len_dataloader dl"
proof -
  note d = DataLoader_cases [OF assms]
  from d(1) have n: "0 < nat bs" by simp
  from d(2) have "0 < length dataset" by simp
  then have "nat bs \<le> length dataset + nat bs - 1" by arith
  then have "0 < (length dataset + nat bs - 1) div nat bs"
    using n by (simp only: div_greater_zero_iff)
  then show ?thesis by (simp only: len_dataloader_def d(3,4))
qed

lemma len_dataloader_ceil:
  assumes "DataLoader dataset bs = Inr dl"
  shows "len_dataloader dl = nat \<lceil>real (length dataset) / real_of_int bs\<rceil>"
proof -
  note d = DataLoader_cases [OF assms]
  from d(1) have n: "0 < nat bs" by simp
  have "real_of_int bs = real (nat bs)" using d(1) by simp
  then show ?thesis
    using ceil_div_nat [OF n, of "length dataset"] by (simp only: len_dataloader_def d(3,4))
qed

lemma length_batches:
  assumes "DataLoader dataset bs = Inr dl"
    and "length (shuffle env epoch dataset) = length dataset"
  shows "length (batches env epoch dl) = len_dataloader dl"
proof -
  note d = DataLoader_cases [OF assms(1)]
  from d(1) have n: "0 < nat bs" by simp
  show ?thesis
    unfolding batches_def len_dataloader_def d(3,4) length_chunk [OF n] assms(2) ..
qed

lemma avg_loss_mean:
  "xs \<noteq> [] \<Longrightarrow> avg_loss xs (length xs) = Inr (mean_loss xs)"
  by (simp add: avg_loss_def fdiv_int_def mean_loss_def py_last_def)

text \<open>
  Claim C8. In every epoch of \<^verbatim>\<open>fit\<close> the loader yields \<open>ceil(N / batch_size)\<close>
  mini-batches; \<^verbatim>\<open>running_loss\<close>, which starts empty in each epoch, holds exactly the
  loss of each of these mini-batches, in order, each evaluated on the parameters
  at its turn; the average \<^verbatim>\<open>sum(running_loss[-len(dataloader):]) / len(dataloader)\<close> is
  the arithmetic mean of these losses, and it is the value the epoch compares
  with \<^verbatim>\<open>best_loss\<close>. The loader's permutation keeps the number of examples.
\<close>

theorem epoch_average_is_mean_of_epoch_batches:
  assumes "DataLoader dataset bs = Inr dl"
    and "length (shuffle env epoch dataset) = length dataset"
    and "train_epoch env s groups (batches env epoch dl) (cur ls, opt_state ls) = (m', os', running_loss)"
  shows "length (batches env epoch dl) = nat \<lceil>real (length dataset) / real_of_int bs\<rceil>
       \<and> running_loss =
           map (\<lambda>k. train_loss env
                       (zero_grad groups
                          (fst (train_epoch env s groups (take k (batches env epoch dl))
                                  (cur ls, opt_state ls))))
                       (batches env epoch dl ! k))
             [0..<length (batches env epoch dl)]
       \<and> avg_loss running_loss (len_dataloader dl) = Inr (mean_loss running_loss)
       \<and> (\<exists>ls'. run_epoch env s dl groups epoch ls = Inr ls'
              \<and> best_loss ls' = (if flt (mean_loss running_loss) (best_loss ls)
                                 then mean_loss running_loss else best_loss ls))"
proof -
  note lb = length_batches [OF assms(1,2)] len_dataloader_ceil [OF assms(1)]
    len_dataloader_pos [OF assms(1)]
  have rl: "running_loss =
      map (\<lambda>k. train_loss env
                  (zero_grad groups
                     (fst (train_epoch env s groups (take k (batches env epoch dl))
                             (cur ls, opt_state ls))))
                  (batches env epoch dl ! k))
        [0..<length (batches env epoch dl)]"
    using train_epoch_losses [of env s groups "batches env epoch dl" "(cur ls, opt_state ls)"]
      assms(3) by simp
  have "length running_loss = length (batches env epoch dl)"
    by (subst rl) simp
  with lb(1) have len: "len_dataloader dl = length running_loss" by simp
  with lb(3) have "running_loss \<noteq> []" by auto
  then have avg: "avg_loss running_loss (len_dataloader dl) = Inr (mean_loss running_loss)"
    unfolding len by (rule avg_loss_mean)
  have ex: "\<exists>ls'. run_epoch env s dl groups epoch ls = Inr ls'
          \<and> best_loss ls' = (if flt (mean_loss running_loss) (best_loss ls)
                             then mean_loss running_loss else best_loss ls)"
    by (simp add: run_epoch_def Let_def assms(3) avg)
  have n: "length (batches env epoch dl) = nat \<lceil>real (length dataset) / real_of_int bs\<rceil>"
    using lb(1,2) by simp
  show ?thesis
  proof (intro conjI)
    show "length (batches env epoch dl) = nat \<lceil>real (length dataset) / real_of_int bs\<rceil>"
      by (rule n)
    show "avg_loss running_loss (len_dataloader dl) = Inr (mean_loss running_loss)"
      by (rule avg)
  qed (rule rl, rule ex)
qed

theorem epoch_average_witness:
  "\<exists>dl m' os'.
     DataLoader (replicate 20 (0 :: real, 0 :: real)) 8 = Inr dl
     \<and> train_epoch demo_engine (merge_settings (Some demo_settings))
           (param_list (merge_settings (Some demo_settings)) (demo_model 1 1))
           (batches demo_engine 1 dl) (demo_model 1 1, 3 / 2)
         = (m', os', [Fin 1, Fin 4, Fin 16])
     \<and> length (batches demo_engine 1 dl) = 3
     \<and> avg_loss [Fin 1, Fin 4, Fin 16] (len_dataloader dl) = Inr (Fin 7)"
proof -
  define s where "s = merge_settings (Some demo_settings)"
  define dl :: "(real, real) dataloader"
    where "dl = \<lparr>dl_dataset = replicate 20 (0, 0), dl_batch_size = 8\<rparr>"
  define ls :: "real loop_state"
    where "ls = initial_loop_state ((demo_model 1 1)\<lparr>training := True\<rparr>) (3 / 2)"
  have d: "DataLoader (replicate 20 (0 :: real, 0 :: real)) 8 = Inr dl"
    by (simp add: DataLoader_def dl_def)
  have sh: "length (shuffle demo_engine 1 (replicate 20 (0 :: real, 0 :: real)))
            = length (replicate 20 (0 :: real, 0 :: real))"
    by (simp add: demo_engine_def)
  obtain m' os' rl where te:
    "train_epoch demo_engine s (param_list s (demo_model 1 1)) (batches demo_engine 1 dl)
       (cur ls, opt_state ls) = (m', os', rl)"
    by (cases "train_epoch demo_engine s (param_list s (demo_model 1 1))
                 (batches demo_engine 1 dl) (cur ls, opt_state ls)")
  have "snd (snd (train_epoch demo_engine s (param_list s (demo_model 1 1))
                    (batches demo_engine 1 dl) (cur ls, opt_state ls)))
        = [Fin 1, Fin 4, Fin 16]"
    unfolding s_def dl_def ls_def by code_simp
  with te have rl: "rl = [Fin 1, Fin 4, Fin 16]" by simp
  have c: "cur ls = demo_model 1 1" "opt_state ls = 3 / 2"
    by (simp_all add: ls_def initial_loop_state_def demo_model_def)
  from epoch_average_is_mean_of_epoch_batches [OF d sh te]
  have "length (batches demo_engine 1 dl) = nat \<lceil>real (length (replicate 20 (0 :: real, 0 :: real))) / real_of_int 8\<rceil>"
    and "avg_loss rl (len_dataloader dl) = Inr (mean_loss rl)"
    by blast+
  moreover have "nat \<lceil>real (length (replicate 20 (0 :: real, 0 :: real))) / real_of_int 8\<rceil> = 3"
    by simp
  moreover have "mean_loss [Fin 1, Fin 4, Fin 16] = Fin 7"
    by (simp add: mean_loss_def fsum_def)
  ultimately show ?thesis
    using d te unfolding rl c s_def by auto
qed

subsection \<open>Termination of \<^verbatim>\<open>fit\<close> with a result\<close>

lemma run_epoch_returns:
  "0 < len_dataloader dl \<Longrightarrow> \<exists>ls'. run_epoch env s dl groups e ls = Inr ls'"
  by (simp add: run_epoch_def avg_loss_def fdiv_int_def Let_def split: prod.splits)

lemma epoch_loop_returns:
  "0 < len_dataloader dl \<Longrightarrow> \<exists>ls'. epoch_loop env s dl groups es ls = Inr ls'"
proof (induction es arbitrary: ls)
  case Nil
  then show ?case by simp
next
  case (Cons e es)
  from run_epoch_returns [OF Cons.prems] obtain l1 where
    "run_epoch env s dl groups e ls = Inr l1" by blast
  with Cons.IH [OF Cons.prems, of l1] show ?case by simp
qed

text \<open>\<^verbatim>\<open>fit\<close> returns on every non-empty data set with a target for each input, a
  positive batch size and a loadable warm start (parameter names are distinct).\<close>

lemma fit_returns:
  assumes "train_X \<noteq> []" and "length train_X \<le> length train_y"
    and "0 < batch_size (merge_settings us)"
    and "warm_start m init = Inr m1"
    and "distinct (map fst (state_dict m))"
  shows "\<exists>m'. fit env m train_X train_y us init = Inr m'"
proof -
  define s where "s = merge_settings us"
  define dataset where "dataset = map (\<lambda>i. (train_X ! i, train_y ! i)) [0..<length train_X]"
  define dl where "dl = \<lparr>dl_dataset = dataset, dl_batch_size = nat (batch_size s)\<rparr>"
  define m2 where "m2 = set_reg_weight m1 (kl_scale m1 / real (length train_y))"
  have ne: "dataset \<noteq> []" using assms(1) by (simp add: dataset_def)
  have dlr: "DataLoader dataset (batch_size s) = Inr dl"
    using ne assms(3) by (simp add: DataLoader_def dl_def s_def)
  have "length train_y \<noteq> 0" using assms(1,2) by auto
  then have stp: "fit_setup m train_X train_y s init = Inr (dl, m2)"
    using assms(2,4) dlr
    by (simp add: fit_setup_def make_dataset_def dataset_def [symmetric] py_div_def m2_def)
  define ls0 where "ls0 = initial_loop_state m2 (opt_init env (param_list s m2) (lr s))"
  from epoch_loop_returns [OF len_dataloader_pos [OF dlr]] obtain ls where
    loop: "epoch_loop env s dl (param_list s m2) [1..num_epochs s] ls0 = Inr ls" by blast
  have "attrs m1 = attrs m" using assms(4) by (rule warm_start_attrs)
  then have sd2: "state_dict m2 = state_dict m"
    by (simp add: m2_def set_reg_weight_def state_dict_def attrs_def)
  have cur0: "state_dict (cur ls0) = state_dict m"
    using sd2 by (simp add: ls0_def initial_loop_state_def state_dict_def)
  have none0: "best_model_state ls0 = None"
    by (simp add: ls0_def initial_loop_state_def)
  from state_dict_attrs [OF epoch_loop_attrs [OF loop]]
  have sdl: "state_dict (cur ls) = state_dict m" using cur0 by simp
  from epoch_loop_best_state [OF loop]
  have "best_model_state ls = None \<or> best_model_state ls = Some (state_dict (cur ls))"
    using cur0 sdl none0 by simp
  then have "(case best_model_state ls of None \<Rightarrow> Inr (cur ls) | Some sd \<Rightarrow> load_state_dict (cur ls) sd)
     = Inr (cur ls)"
    using load_state_dict_self [of "cur ls"] assms(5) sdl by auto
  moreover have "fit_epochs env m train_X train_y us init = Inr ls"
    using stp loop by (simp add: fit_epochs_def s_def [symmetric] Let_def ls0_def)
  ultimately have "fit env m train_X train_y us init = Inr (cur ls)"
    by (simp add: fit_def)
  then show ?thesis ..
qed

subsection \<open>The optimizer's parameter groups\<close>

text \<open>
  Claim C6. In every call of \<^verbatim>\<open>fit\<close> that reaches the construction of the
  optimizer, the optimizer is constructed over the groups \<open>param_list\<close> of the
  merged settings, and the loop trains with them: the group of the head's
  parameters, whose weight decay is exactly 0, comes first and is always there;
  the group of the backbone's parameters, with the weight decay of the setting
  \<^verbatim>\<open>wd\<close>, follows if and only if \<^verbatim>\<open>freeze_backbone\<close> is false.
\<close>

theorem fit_param_groups:
  assumes "fit_setup m train_X train_y (merge_settings us) init = Inr (dl, m2)"
  shows "param_list (merge_settings us) m2 =
           (if freeze_backbone (merge_settings us)
            then [\<lparr>params = head_parameters m, weight_decay = 0\<rparr>]
            else [\<lparr>params = head_parameters m, weight_decay = 0\<rparr>,
                  \<lparr>params = backbone_parameters m, weight_decay = wd (merge_settings us)\<rparr>])
       \<and> fit_epochs env m train_X train_y us init =
           epoch_loop env (merge_settings us) dl (param_list (merge_settings us) m2)
             [1..num_epochs (merge_settings us)]
             (initial_loop_state m2
                (opt_init env (param_list (merge_settings us) m2) (lr (merge_settings us))))"
proof -
  from assms obtain m1 where m1: "warm_start m init = Inr m1"
    and m2: "m2 = set_reg_weight m1 (kl_scale m1 / real (length train_y))"
    by (elim fit_setup_cases) blast
  from warm_start_attrs [OF m1]
  have "head_parameters m2 = head_parameters m" "backbone_parameters m2 = backbone_parameters m"
    by (simp_all add: attrs_def m2 set_reg_weight_def head_parameters_def backbone_parameters_def)
  then have "param_list (merge_settings us) m2 =
           (if freeze_backbone (merge_settings us)
            then [\<lparr>params = head_parameters m, weight_decay = 0\<rparr>]
            else [\<lparr>params = head_parameters m, weight_decay = 0\<rparr>,
                  \<lparr>params = backbone_parameters m, weight_decay = wd (merge_settings us)\<rparr>])"
    by (simp add: param_list_def)
  moreover have "fit_epochs env m train_X train_y us init =
           epoch_loop env (merge_settings us) dl (param_list (merge_settings us) m2)
             [1..num_epochs (merge_settings us)]
             (initial_loop_state m2
                (opt_init env (param_list (merge_settings us) m2) (lr (merge_settings us))))"
    using assms by (simp add: fit_epochs_def Let_def)
  ultimately show ?thesis by (rule conjI)
qed

theorem fit_param_groups_witness:
  "fit_setup (demo_model 1 1) [0 :: real] [0 :: real] (merge_settings (Some demo_settings)) None
     = Inr (\<lparr>dl_dataset = [(0, 0)], dl_batch_size = 8\<rparr>, set_reg_weight (demo_model 1 1) 2)
   \<and> param_list (merge_settings (Some demo_settings)) (set_reg_weight (demo_model 1 1) 2)
     = [\<lparr>params = [1], weight_decay = 0\<rparr>, \<lparr>params = [0], weight_decay = 1 / 10000\<rparr>]
   \<and> param_list (merge_settings (Some (demo_settings\<lparr>u_freeze_backbone := Some True\<rparr>)))
        (set_reg_weight (demo_model 1 1) 2)
     = [\<lparr>params = [1], weight_decay = 0\<rparr>]"
proof -
  have a: "fit_setup (demo_model 1 1) [0 :: real] [0 :: real] (merge_settings (Some demo_settings)) None
     = Inr (\<lparr>dl_dataset = [(0, 0)], dl_batch_size = 8\<rparr>, set_reg_weight (demo_model 1 1) 2)"
    by (simp add: fit_setup_def make_dataset_def DataLoader_def merge_settings_def
        demo_settings_def warm_start_def py_div_def demo_model_def)
  have b: "fit_setup (demo_model 1 1) [0 :: real] [0 :: real]
       (merge_settings (Some (demo_settings\<lparr>u_freeze_backbone := Some True\<rparr>))) None
     = Inr (\<lparr>dl_dataset = [(0, 0)], dl_batch_size = 8\<rparr>, set_reg_weight (demo_model 1 1) 2)"
    by (simp add: fit_setup_def make_dataset_def DataLoader_def merge_settings_def
        demo_settings_def warm_start_def py_div_def demo_model_def)
  have c: "head_parameters (demo_model 1 1) = [1]" "backbone_parameters (demo_model 1 1) = [0]"
    by (simp_all add: head_parameters_def backbone_parameters_def demo_model_def)
  have d: "\<not> freeze_backbone (merge_settings (Some demo_settings))"
    "wd (merge_settings (Some demo_settings)) = 1 / 10000"
    "freeze_backbone (merge_settings (Some (demo_settings\<lparr>u_freeze_backbone := Some True\<rparr>)))"
    by (simp_all add: merge_settings_def demo_settings_def default_opt_settings_def)
  from fit_param_groups [OF a, of demo_engine] fit_param_groups [OF b, of demo_engine] a
  show ?thesis
    unfolding c using d by simp
qed

subsection \<open>The regularization weight\<close>

text \<open>
  Claim C7. When a call of \<^verbatim>\<open>fit\<close> on \<open>N\<close> training targets returns, the head's
  \<^verbatim>\<open>regularization_weight\<close> is \<open>kl_scale / N\<close>; the witness is the model with
  \<open>kl_scale = 2\<close> fitted on 20 points, whose weight is \<open>1/10\<close>.
\<close>

theorem fit_sets_regularization_weight:
  assumes "fit env m train_X train_y us init = Inr m'"
  shows "regularization_weight m' = kl_scale m / real (length train_y)"
proof -
  from assms obtain ls where
    ep: "fit_epochs env m train_X train_y us init = Inr ls" and
    fin: "(case best_model_state ls of None \<Rightarrow> Inr (cur ls) | Some sd \<Rightarrow> load_state_dict (cur ls) sd)
     = Inr m'"
    by (rule fit_unfold)
  from ep obtain dl m2 where
    stp: "fit_setup m train_X train_y (merge_settings us) init = Inr (dl, m2)" and
    loop: "epoch_loop env (merge_settings us) dl (param_list (merge_settings us) m2)
       [1..num_epochs (merge_settings us)]
       (initial_loop_state m2 (opt_init env (param_list (merge_settings us) m2) (lr (merge_settings us))))
     = Inr ls"
    by (rule fit_epochs_cases)
  from stp obtain m1 where m1: "warm_start m init = Inr m1"
    and m2: "m2 = set_reg_weight m1 (kl_scale m1 / real (length train_y))"
    by (elim fit_setup_cases) blast
  have "kl_scale m1 = kl_scale m"
    using warm_start_attrs [OF m1] by (simp add: attrs_def)
  then have w2: "regularization_weight m2 = kl_scale m / real (length train_y)"
    by (simp add: m2 set_reg_weight_def)
  have "attrs m' = attrs (cur ls)"
    using fin by (cases "best_model_state ls") (auto dest: load_state_dict_attrs)
  with epoch_loop_attrs [OF loop]
  have "regularization_weight m' = regularization_weight m2"
    by (simp add: attrs_def initial_loop_state_def)
  with w2 show ?thesis by simp
qed

theorem fit_sets_regularization_weight_witness:
  "\<exists>m'. fit demo_engine (demo_model 1 1) (replicate 20 0) (replicate 20 0) (Some demo_settings) None
          = Inr m'
        \<and> regularization_weight m' = 1 / 10"
proof -
  have "\<exists>m'. fit demo_engine (demo_model 1 1) (replicate 20 0) (replicate 20 0)
                (Some demo_settings) None = Inr m'"
    by (rule fit_returns [where ?m1.0 = "demo_model 1 1"])
      (simp_all add: merge_settings_def demo_settings_def warm_start_def demo_model_def
        state_dict_def)
  then obtain m' where r:
    "fit demo_engine (demo_model 1 1) (replicate 20 0) (replicate 20 0) (Some demo_settings) None
     = Inr m'" ..
  from fit_sets_regularization_weight [OF r] have "regularization_weight m' = 1 / 10"
    by (simp add: demo_model_def)
  with r show ?thesis by blast
qed

subsection \<open>A frozen backbone\<close>

text \<open>
  Claim C5, as amended. When a call of \<^verbatim>\<open>fit\<close> with \<^verbatim>\<open>freeze_backbone=True\<close> returns,
  every backbone parameter (that is not also a parameter of the head) holds the
  value it had right after the optional load of \<^verbatim>\<open>initialization_params\<close>: the
  training loop, whatever the number of epochs, and the closing restore leave it
  alone. Without \<^verbatim>\<open>initialization_params\<close> that is the value from before the call.
\<close>

theorem frozen_backbone_keeps_loaded_values:
  assumes "fit env m train_X train_y us init = Inr m'"
    and "freeze_backbone (merge_settings us)"
    and "distinct (map fst (state_dict m))"
    and "a \<in> set (backbone_parameters m)"
    and "a \<notin> set (head_parameters m)"
  shows "\<exists>m1. warm_start m init = Inr m1 \<and> heap m' a = heap m1 a
            \<and> (init = None \<longrightarrow> heap m' a = heap m a)"
proof -
  define s where "s = merge_settings us"
  from assms(1,3) obtain ls where
    ep: "fit_epochs env m train_X train_y us init = Inr ls" and
    fin: "m' = cur ls"
    by (rule fit_cases)
  from ep obtain dl m2 where
    stp: "fit_setup m train_X train_y s init = Inr (dl, m2)" and
    loop: "epoch_loop env s dl (param_list s m2) [1..num_epochs s]
       (initial_loop_state m2 (opt_init env (param_list s m2) (lr s))) = Inr ls"
    unfolding s_def by (rule fit_epochs_cases)
  from stp obtain m1 where m1: "warm_start m init = Inr m1"
    and m2: "m2 = set_reg_weight m1 (kl_scale m1 / real (length train_y))"
    by (elim fit_setup_cases) blast
  have "head_params m1 = head_params m"
    using warm_start_attrs [OF m1] by (simp add: attrs_def)
  then have "group_params (param_list s m2) = set (head_parameters m)"
    using assms(2)
    by (simp add: group_params_def param_list_def s_def m2 set_reg_weight_def head_parameters_def)
  with assms(5) have "a \<notin> group_params (param_list s m2)" by simp
  from epoch_loop_heap [OF loop this] have "heap (cur ls) a = heap m1 a"
    by (simp add: initial_loop_state_def m2 set_reg_weight_def)
  with fin have h: "heap m' a = heap m1 a" by simp
  have "init = None \<longrightarrow> heap m' a = heap m a"
    using m1 h by (auto simp: warm_start_def)
  with m1 h show ?thesis by blast
qed

theorem frozen_backbone_keeps_loaded_values_witness:
  "\<exists>m'. fit demo_engine (demo_model 1 1) [0] [0]
            (Some (demo_settings\<lparr>u_freeze_backbone := Some True\<rparr>)) None = Inr m'
        \<and> heap m' 0 = heap (demo_model 1 1) 0"
proof -
  let ?us = "Some (demo_settings\<lparr>u_freeze_backbone := Some True\<rparr>)"
  have "\<exists>m'. fit demo_engine (demo_model 1 1) [0] [0] ?us None = Inr m'"
    by (rule fit_returns [where ?m1.0 = "demo_model 1 1"])
      (simp_all add: merge_settings_def demo_settings_def warm_start_def demo_model_def
        state_dict_def)
  then obtain m' where r: "fit demo_engine (demo_model 1 1) [0] [0] ?us None = Inr m'" ..
  have "\<exists>m1. warm_start (demo_model 1 1) None = Inr m1 \<and> heap m' 0 = heap m1 0
            \<and> (None = (None :: state_dict option) \<longrightarrow> heap m' 0 = heap (demo_model 1 1) 0)"
    by (rule frozen_backbone_keeps_loaded_values [OF r])
      (simp_all add: merge_settings_def demo_settings_def demo_model_def state_dict_def
        backbone_parameters_def head_parameters_def)
  with r show ?thesis by blast
qed

text \<open>The claim as stated fails: with \<^verbatim>\<open>freeze_backbone=True\<close> and a checkpoint as
  \<^verbatim>\<open>initialization_params\<close>, the backbone weight is 1 before the call and 5, the
  checkpoint's value, after it.\<close>

theorem frozen_backbone_changed_by_warm_start:
  "freeze_backbone (merge_settings (Some (demo_settings\<lparr>u_freeze_backbone := Some True\<rparr>)))
   \<and> 0 \<in> set (backbone_parameters (demo_model 1 1))
   \<and> heap (demo_model 1 1) 0 = vec1 1
   \<and> map_sum id (\<lambda>m'. heap m' 0)
        (fit demo_engine (demo_model 1 1) [0] [0]
           (Some (demo_settings\<lparr>u_freeze_backbone := Some True\<rparr>)) (Some demo_checkpoint))
      = Inr (vec1 5)
   \<and> vec1 5 \<noteq> vec1 1"
  by code_simp

subsection \<open>Early stopping\<close>

text \<open>
  Claim C4. In every epoch that \<^verbatim>\<open>fit\<close> trains, \<^verbatim>\<open>best_loss\<close> stays or strictly
  decreases; \<^verbatim>\<open>epochs_no_improve\<close> counts the consecutive epochs without a strict
  improvement (it is reset to 0 by an improvement and grows by 1 otherwise); and
  as soon as it reaches the patience, \<^verbatim>\<open>early_stop\<close> is set and the loop trains no
  further epoch: from that state it returns at once, whatever epochs remain.
\<close>

theorem best_loss_monotone_and_early_stop:
  assumes "run_epoch env s dl groups epoch ls = Inr ls'"
  shows "fle (best_loss ls') (best_loss ls)
       \<and> epochs_no_improve ls'
           = (if flt (best_loss ls') (best_loss ls) then 0 else epochs_no_improve ls + 1)
       \<and> (patience s \<le> int (epochs_no_improve ls')
            \<longrightarrow> early_stop ls' \<and> (\<forall>es. epoch_loop env s dl groups es ls' = Inr ls'))"
proof -
  have irr: "\<not> flt (best_loss ls) (best_loss ls)"
    by (cases "best_loss ls") simp_all
  from assms have "fle (best_loss ls') (best_loss ls)"
    by (rule run_epoch_best_loss)
  moreover from assms irr have "epochs_no_improve ls'
      = (if flt (best_loss ls') (best_loss ls) then 0 else epochs_no_improve ls + 1)"
    by (elim run_epoch_cases) (simp split: if_splits)
  moreover from assms have "patience s \<le> int (epochs_no_improve ls') \<longrightarrow> early_stop ls'"
    by (elim run_epoch_cases) simp
  ultimately show ?thesis
    by (simp add: epoch_loop_stopped)
qed

theorem best_loss_monotone_and_early_stop_witness:
  "\<exists>ls'. run_epoch demo_engine ((merge_settings (Some demo_settings))\<lparr>patience := 1\<rparr>)
            \<lparr>dl_dataset = [(0, 0)], dl_batch_size = 8\<rparr>
            (param_list (merge_settings (Some demo_settings)) (demo_model 1 1)) 2
            ((initial_loop_state (demo_model 1 1) (3 / 2))\<lparr>best_loss := Fin (1 / 2)\<rparr>) = Inr ls'
        \<and> best_loss ls' = Fin (1 / 2) \<and> epochs_no_improve ls' = 1 \<and> early_stop ls'
        \<and> epoch_loop demo_engine ((merge_settings (Some demo_settings))\<lparr>patience := 1\<rparr>)
            \<lparr>dl_dataset = [(0, 0)], dl_batch_size = 8\<rparr>
            (param_list (merge_settings (Some demo_settings)) (demo_model 1 1)) [3, 4] ls' = Inr ls'"
proof -
  let ?s = "(merge_settings (Some demo_settings))\<lparr>patience := 1\<rparr>"
  let ?dl = "\<lparr>dl_dataset = [(0 :: real, 0 :: real)], dl_batch_size = 8\<rparr>"
  let ?g = "param_list (merge_settings (Some demo_settings)) (demo_model 1 1)"
  let ?ls = "(initial_loop_state (demo_model 1 1) (3 / 2 :: real))\<lparr>best_loss := Fin (1 / 2)\<rparr>"
  have ev: "map_sum id (\<lambda>l. (best_loss l, epochs_no_improve l)) (run_epoch demo_engine ?s ?dl ?g 2 ?ls)
        = Inr (Fin (1 / 2), 1)"
    by code_simp
  then obtain ls' where r: "run_epoch demo_engine ?s ?dl ?g 2 ?ls = Inr ls'"
    by (cases "run_epoch demo_engine ?s ?dl ?g 2 ?ls") auto
  with ev have v: "best_loss ls' = Fin (1 / 2)" "epochs_no_improve ls' = 1" by simp_all
  have p: "patience ?s \<le> int (epochs_no_improve ls')" using v by simp
  from best_loss_monotone_and_early_stop [OF r] p
  have "early_stop ls'" and "epoch_loop demo_engine ?s ?dl ?g [3, 4] ls' = Inr ls'"
    by blast+
  with r v show ?thesis by blast
qed

subsection \<open>\<^verbatim>\<open>posterior\<close> leaves the model alone\<close>



subsection \<open>The shapes of sampled functions\<close>

lemma forward_single_shape:
  assumes "shape (sm_backbone sm x) = [M, H]" and "shape (sampled_params sm) = [K, H]"
  shows "\<exists>t. forward sm x = Inr t \<and> shape t = [M, K] \<and> well_formed t"
  using assms
  by (simp add: forward_def ndim_def matmul_def matmul_nd_def unsqueeze_last_def squeeze_dim_def
      wrap_dim_def Let_def well_formed_def tabulate_def)

lemma forward_batched_shape:
  assumes "shape (sm_backbone sm x) = [M, H]" and "shape (sampled_params sm) = [S, K, H]"
  shows "\<exists>t. forward sm x = Inr t \<and> shape t = [S, K, M] \<and> well_formed t"
  using assms
  by (simp add: forward_def ndim_def matmul_def matmul_nd_def unsqueeze_first_def expand_def
      transpose_last2_def Let_def well_formed_def tabulate_def)

text \<open>The entries of a sampled function's output.\<close>

lemma forward_batched_entries:
  assumes sx: "shape (sm_backbone sm x) = [M, H]" and sw: "shape (sampled_params sm) = [S, K, H]"
    and b: "s < S" "k < K" "i < M"
  shows "\<exists>t. forward sm x = Inr t \<and> shape t = [S, K, M]
          \<and> tget t [s, k, i]
              = (\<Sum>l\<leftarrow>[0..<H]. tget (sampled_params sm) [s, k, l] * tget (sm_backbone sm x) [i, l])"
proof -
  define f where "f = sm_backbone sm x"
  define w where "w = sampled_params sm"
  define xe where "xe = tabulate [S, M, H] (\<lambda>idx. tget (unsqueeze_first f) (broadcast_index [1, M, H] idx))"
  define xt where "xt = tabulate [S, H, M] (\<lambda>idx. tget xe (take 1 idx @ [idx ! 2, idx ! 1]))"
  define out where "out = tabulate [S, K, M]
     (\<lambda>idx. \<Sum>l\<leftarrow>[0..<H]. tget w (broadcast_index [S] (take 1 idx) @ [idx ! 1, l])
                          * tget xt (broadcast_index [S] (take 1 idx) @ [l, idx ! 2]))"
  have e: "expand [int S, - 1, - 1] (unsqueeze_first f) = Inr xe"
    using sx by (simp add: expand_def unsqueeze_first_def xe_def f_def Let_def)
  have t: "transpose_last2 xe = Inr xt"
    by (simp add: transpose_last2_def xe_def xt_def Let_def numeral_2_eq_2)
  have mm: "matmul w xt = Inr out"
    using sw
    by (simp add: matmul_def matmul_nd_def ndim_def w_def [symmetric] xt_def out_def Let_def
        numeral_2_eq_2)
  have fw: "forward sm x = Inr out"
    using sw e t mm by (simp add: forward_def ndim_def Let_def w_def [symmetric] f_def [symmetric])
  have bs: "broadcast_index [S] [s] = [s]"
    using b(1) by (auto simp: broadcast_index_def)
  have xt_entry: "tget xt [s, l, i] = tget f [i, l]" if l: "l < H" for l
  proof -
    have "tget xt [s, l, i] = tget xe [s, i, l]"
      unfolding xt_def using b l by (subst tget_tabulate) (simp_all add: valid_index_def)
    also have "\<dots> = tget (unsqueeze_first f) (broadcast_index [1, M, H] [s, i, l])"
      unfolding xe_def using b l by (subst tget_tabulate) (simp_all add: valid_index_def)
    also have "broadcast_index [1, M, H] [s, i, l] = [0, i, l]"
      using b l by (auto simp: broadcast_index_def)
    also have "tget (unsqueeze_first f) [0, i, l] = tget f [i, l]"
      using sx by (simp add: tget_def unsqueeze_first_def f_def)
    finally show ?thesis .
  qed
  have "tget out [s, k, i]
      = (\<Sum>l\<leftarrow>[0..<H]. tget w ([s] @ [k, l]) * tget xt ([s] @ [l, i]))"
    unfolding out_def using b bs by (subst tget_tabulate) (simp_all add: valid_index_def)
  also have "\<dots> = (\<Sum>l\<leftarrow>[0..<H]. tget w [s, k, l] * tget f [i, l])"
    by (rule arg_cong [where f = sum_list], rule map_cong) (simp_all add: xt_entry)
  finally show ?thesis
    using fw by (simp add: out_def w_def f_def)
qed

lemma forward_single_entries:
  assumes sx: "shape (sm_backbone sm x) = [M, H]" and sw: "shape (sampled_params sm) = [K, H]"
    and b: "i < M" "k < K"
  shows "\<exists>t. forward sm x = Inr t \<and> shape t = [M, K]
          \<and> tget t [i, k]
              = (\<Sum>l\<leftarrow>[0..<H]. tget (sampled_params sm) [k, l] * tget (sm_backbone sm x) [i, l])"
proof -
  define f where "f = sm_backbone sm x"
  define w where "w = sampled_params sm"
  define out where "out = tabulate [M, K, 1]
     (\<lambda>idx. \<Sum>l\<leftarrow>[0..<H]. tget w (broadcast_index [] (take 1 idx) @ [idx ! 1, l])
                          * tget (unsqueeze_last f) (broadcast_index [M] (take 1 idx) @ [l, idx ! 2]))"
  have mm: "matmul w (unsqueeze_last f) = Inr out"
    using sw sx
    by (simp add: matmul_def matmul_nd_def ndim_def w_def [symmetric] f_def [symmetric]
        unsqueeze_last_def out_def Let_def numeral_2_eq_2)
  have sq: "squeeze_dim (- 1) out = Inr (out\<lparr>shape := [M, K]\<rparr>)"
    by (simp add: squeeze_dim_def wrap_dim_def ndim_def out_def)
  have fw: "forward sm x = Inr (out\<lparr>shape := [M, K]\<rparr>)"
    using sw mm sq by (simp add: forward_def ndim_def Let_def w_def [symmetric] f_def [symmetric])
  have bs: "broadcast_index [M] [i] = [i]"
    using b(1) by (auto simp: broadcast_index_def)
  have "tget (out\<lparr>shape := [M, K]\<rparr>) [i, k] = tget out [i, k, 0]"
    by (simp add: tget_def out_def)
  also have "\<dots> = (\<Sum>l\<leftarrow>[0..<H]. tget w ([] @ [k, l]) * tget (unsqueeze_last f) ([i] @ [l, 0]))"
    unfolding out_def using b bs
    by (subst tget_tabulate) (simp_all add: valid_index_def broadcast_index_def)
  also have "\<dots> = (\<Sum>l\<leftarrow>[0..<H]. tget w [k, l] * tget f [i, l])"
    using sx by (simp add: tget_def unsqueeze_last_def f_def)
  finally show ?thesis
    using fw by (simp add: w_def f_def)
qed

text \<open>
  Claim C3, as amended. On a batch of \<open>M\<close> points (features of shape \<open>(M, H)\<close> behind
  the backbone), the callable returned by \<^verbatim>\<open>sample(None)\<close> produces output of shape
  \<open>(M, out_features)\<close>, and for every \<open>S\<close> the callable returned by \<^verbatim>\<open>sample((S,))\<close>
  produces output of shape \<open>(S, out_features, M)\<close>: the batched path multiplies the
  weights with the transposed features, so entry \<open>(s, k, i)\<close> is output \<open>k\<close> of
  sample \<open>s\<close> at point \<open>i\<close>. The weight posterior draws samples of shape
  \<open>(out_features, H)\<close> and \<open>(S, out_features, H)\<close>.
\<close>

theorem sample_output_shapes:
  assumes "shape (backbone_apply env m x) = [M, H]"
    and "shape (head_rsample env m []) = [num_outputs m, H]"
    and "shape (head_rsample env m [S]) = [S, num_outputs m, H]"
  shows "(\<exists>t. forward (sample env m None) x = Inr t \<and> shape t = [M, num_outputs m]
            \<and> well_formed t
            \<and> (\<forall>i<M. \<forall>k<num_outputs m.
                  tget t [i, k] = (\<Sum>l\<leftarrow>[0..<H]. tget (head_rsample env m []) [k, l]
                                                * tget (backbone_apply env m x) [i, l])))
       \<and> (\<exists>t. forward (sample env m (Some [S])) x = Inr t \<and> shape t = [S, num_outputs m, M]
            \<and> well_formed t
            \<and> (\<forall>s<S. \<forall>k<num_outputs m. \<forall>i<M.
                  tget t [s, k, i] = (\<Sum>l\<leftarrow>[0..<H]. tget (head_rsample env m [S]) [s, k, l]
                                                   * tget (backbone_apply env m x) [i, l])))"
proof
  let ?one = "sample env m None"
  have b1: "sm_backbone ?one = backbone_apply env m"
    and w1: "sampled_params ?one = head_rsample env m []"
    by (simp_all add: sample_def sample_posterior_function_def truthy_def)
  from forward_single_shape [of ?one x M H "num_outputs m"] assms(1,2) obtain t where
    t: "forward ?one x = Inr t" "shape t = [M, num_outputs m]" "well_formed t"
    unfolding b1 w1 by blast
  have "tget t [i, k] = (\<Sum>l\<leftarrow>[0..<H]. tget (head_rsample env m []) [k, l]
                                     * tget (backbone_apply env m x) [i, l])"
    if "i < M" "k < num_outputs m" for i k
    using forward_single_entries [of ?one x M H "num_outputs m" i k] assms(1,2) that t(1)
    unfolding b1 w1 by auto
  with t show "\<exists>t. forward ?one x = Inr t \<and> shape t = [M, num_outputs m] \<and> well_formed t
            \<and> (\<forall>i<M. \<forall>k<num_outputs m.
                  tget t [i, k] = (\<Sum>l\<leftarrow>[0..<H]. tget (head_rsample env m []) [k, l]
                                                * tget (backbone_apply env m x) [i, l]))"
    by blast
next
  let ?many = "sample env m (Some [S])"
  have b1: "sm_backbone ?many = backbone_apply env m"
    and w1: "sampled_params ?many = head_rsample env m [S]"
    by (simp_all add: sample_def sample_posterior_function_def truthy_def)
  from forward_batched_shape [of ?many x M H S "num_outputs m"] assms(1,3) obtain t where
    t: "forward ?many x = Inr t" "shape t = [S, num_outputs m, M]" "well_formed t"
    unfolding b1 w1 by blast
  have "tget t [s, k, i] = (\<Sum>l\<leftarrow>[0..<H]. tget (head_rsample env m [S]) [s, k, l]
                                        * tget (backbone_apply env m x) [i, l])"
    if "s < S" "k < num_outputs m" "i < M" for s k i
    using forward_batched_entries [of ?many x M H S "num_outputs m" s k i] assms(1,3) that t(1)
    unfolding b1 w1 by auto
  with t show "\<exists>t. forward ?many x = Inr t \<and> shape t = [S, num_outputs m, M] \<and> well_formed t
            \<and> (\<forall>s<S. \<forall>k<num_outputs m. \<forall>i<M.
                  tget t [s, k, i] = (\<Sum>l\<leftarrow>[0..<H]. tget (head_rsample env m [S]) [s, k, l]
                                                   * tget (backbone_apply env m x) [i, l]))"
    by blast
qed

theorem sample_output_shapes_witness:
  "(\<exists>t. forward (sample demo_engine (demo_model 2 1) None) (demo_X 3 2) = Inr t
        \<and> shape t = [3, 1] \<and> well_formed t)
   \<and> (\<exists>t. forward (sample demo_engine (demo_model 2 1) (Some [4])) (demo_X 3 2) = Inr t
        \<and> shape t = [4, 1, 3] \<and> well_formed t)"
proof -
  have "shape (backbone_apply demo_engine (demo_model 2 1) (demo_X 3 2)) = [3, 2]"
    and "shape (head_rsample demo_engine (demo_model 2 1) []) = [num_outputs (demo_model 2 1), 2]"
    and "shape (head_rsample demo_engine (demo_model 2 1) [4])
         = [4, num_outputs (demo_model 2 1), 2]"
    and "num_outputs (demo_model 2 1) = 1"
    by (simp_all add: demo_engine_def demo_model_def demo_X_def)
  from sample_output_shapes [OF this(1,2,3)] this(4) show ?thesis
    by auto
qed


text \<open>The claim as stated fails: for \<open>S = 4\<close>, \<open>M = 3\<close> and one output the shape is
  \<open>(4, 1, 3)\<close>, not \<open>(4, 3, 1)\<close>.\<close>

theorem sample_batched_shape_is_not_S_M_out:
  "map_sum id shape (forward (sample demo_engine (demo_model 2 1) (Some [4])) (demo_X 3 2))
     = Inr [4, 1, 3]
   \<and> map_sum id shape (forward (sample demo_engine (demo_model 2 1) (Some [4])) (demo_X 3 2))
     \<noteq> Inr [4, 3, 1]"
  by code_simp

subsection \<open>The truth value of \<^verbatim>\<open>sample_shape\<close>\<close>

text \<open>
  Claim C10, as amended. The only \<^verbatim>\<open>sample_shape\<close> that is not \<^verbatim>\<open>None\<close> and yet false
  is the empty one. For it \<^verbatim>\<open>sample_posterior_function\<close> behaves exactly as for
  \<^verbatim>\<open>None\<close>: it makes the same draw without a shape and returns the same wrapper,
  which, the draw being of rank 2, evaluates along the single-sample path.
\<close>

theorem falsy_sample_shape_is_empty:
  assumes "sample_shape \<noteq> None" and "\<not> truthy sample_shape"
  shows "sample_shape = Some []
       \<and> sample_posterior_function env m sample_shape = sample_posterior_function env m None
       \<and> (ndim (head_rsample env m []) = 2 \<longrightarrow>
            forward (sample_posterior_function env m sample_shape) x
            = and_then (matmul (head_rsample env m []) (unsqueeze_last (backbone_apply env m x)))
                (squeeze_dim (- 1)))"
  using assms
  by (cases sample_shape) (auto simp: truthy_def sample_posterior_function_def forward_def Let_def)

theorem falsy_sample_shape_is_empty_witness:
  "\<not> truthy (Some []) \<and>
   sample_posterior_function demo_engine (demo_model 2 1) (Some [])
     = sample_posterior_function demo_engine (demo_model 2 1) None
   \<and> forward (sample_posterior_function demo_engine (demo_model 2 1) (Some [])) (demo_X 3 2)
     = Inr \<lparr>shape = [3, 1], data = [0, 0, 0]\<rparr>"
proof -
  have t: "\<not> truthy (Some [])" by (simp add: truthy_def)
  have n: "ndim (head_rsample demo_engine (demo_model 2 1) []) = 2"
    by (simp add: demo_engine_def demo_model_def ndim_def)
  have ev: "and_then (matmul (head_rsample demo_engine (demo_model 2 1) [])
                (unsqueeze_last (backbone_apply demo_engine (demo_model 2 1) (demo_X 3 2))))
              (squeeze_dim (- 1)) = Inr \<lparr>shape = [3, 1], data = [0, 0, 0]\<rparr>"
    by code_simp
  have "sample_posterior_function demo_engine (demo_model 2 1) (Some [])
          = sample_posterior_function demo_engine (demo_model 2 1) None"
    and "forward (sample_posterior_function demo_engine (demo_model 2 1) (Some [])) (demo_X 3 2)
         = and_then (matmul (head_rsample demo_engine (demo_model 2 1) [])
                (unsqueeze_last (backbone_apply demo_engine (demo_model 2 1) (demo_X 3 2))))
              (squeeze_dim (- 1))"
    using falsy_sample_shape_is_empty [of "Some []" demo_engine "demo_model 2 1" "demo_X 3 2"] t n
    by blast+
  with t ev show ?thesis by (simp only: simp_thms)
qed

text \<open>The claim as stated fails: a shape that contains 0, such as \<open>(0,)\<close>, is a
  non-empty tuple and so true; it gets the shaped draw, of shape \<open>(0, 1, 2)\<close> here
  instead of \<open>(1, 2)\<close>, and the batched path.\<close>

theorem sample_shape_with_zero_is_truthy:
  "truthy (Some [0])
   \<and> shape (sampled_params (sample_posterior_function demo_engine (demo_model 2 1) (Some [0])))
       = [0, 1, 2]
   \<and> shape (sampled_params (sample_posterior_function demo_engine (demo_model 2 1) None)) = [1, 2]
   \<and> forward (sample_posterior_function demo_engine (demo_model 2 1) (Some [0])) (demo_X 3 2)
       = Inr \<lparr>shape = [0, 1, 3], data = []\<rparr>
   \<and> forward (sample_posterior_function demo_engine (demo_model 2 1) None) (demo_X 3 2)
       = Inr \<lparr>shape = [3, 1], data = [0, 0, 0]\<rparr>"
  by code_simp

subsection \<open>Where \<^verbatim>\<open>posterior\<close> raises\<close>

text \<open>
  With one point and one output, \<^verbatim>\<open>squeeze()\<close> turns the variance into a scalar and
  \<^verbatim>\<open>diag_embed\<close> raises. With several points and several outputs, \<^verbatim>\<open>diag_embed\<close>
  returns \<open>N * K * K\<close> entries, which \<^verbatim>\<open>reshape(B, N, K, B, N, K)\<close> refuses. The
  head predicts mean and variance of shape \<open>(N, K)\<close>.
\<close>

lemma posterior_one_point_one_output:
  assumes "shape X = [1, D]" and "shape (snd (predictive env m X)) = [1, 1]"
  shows "posterior_distribution env m X = Inl IndexError"
proof -
  obtain mean0 var0 where p: "predictive env m X = (mean0, var0)"
    by (cases "predictive env m X")
  with assms(2) have "shape (squeeze var0) = []"
    by (simp add: squeeze_def)
  then have "diag_embed (squeeze var0) = Inl IndexError"
    by (simp add: diag_embed_def)
  then show ?thesis
    using assms(1) p by (simp add: posterior_distribution_def ndim_def Let_def)
qed

lemma posterior_many_points_many_outputs:
  assumes "shape X = [N, D]" and "2 \<le> N" and "2 \<le> num_outputs m"
    and "shape (fst (predictive env m X)) = [N, num_outputs m]"
    and "shape (snd (predictive env m X)) = [N, num_outputs m]"
  shows "posterior_distribution env m X = Inl RuntimeError"
proof -
  obtain mean0 var0 where p: "predictive env m X = (mean0, var0)"
    by (cases "predictive env m X")
  define K where "K = num_outputs m"
  from assms p have sm: "shape mean0 = [N, K]" and sv: "shape var0 = [N, K]"
    by (simp_all add: K_def)
  from assms(2,3) have n1: "N \<noteq> Suc 0" "K \<noteq> Suc 0" "N \<noteq> 0" "K \<noteq> 0"
    by (simp_all add: K_def)
  have sq: "shape (squeeze var0) = [N, K]" "shape (squeeze mean0) = [N, K]"
    using sm sv n1 by (simp_all add: squeeze_def)
  obtain cov0 where c0: "diag_embed (squeeze var0) = Inr cov0" and sc: "shape cov0 = [N, K, K]"
    using sq by (simp add: diag_embed_def)
  have r1: "\<exists>mean2. reshape [1, N * K] (squeeze mean0) = Inr mean2"
    using sq by (simp add: reshape_def numel_def)
  have "N * K * K \<noteq> N * K * (N * K)"
    using assms(2) n1 by simp
  then have r2: "reshape [1, N, K, 1, N, K] cov0 = Inl RuntimeError"
    using sc by (simp add: reshape_def numel_def mult.assoc)
  from r1 obtain mean2 where m2: "reshape [1, N * K] (squeeze mean0) = Inr mean2" ..
  show ?thesis
    using assms(1) p c0 m2 r2
    by (simp add: posterior_distribution_def ndim_def Let_def K_def [symmetric])
qed

text \<open>With one output and at least two points posterior returns, and the
  covariance is the diagonal matrix of the points' variances.\<close>

lemma posterior_single_output:
  assumes X: "shape X = [N, D]" and N: "2 \<le> N" and K: "num_outputs m = 1"
    and p: "predictive env m X = (mean0, var0)"
    and sm: "shape mean0 = [N, 1]" and sv: "shape var0 = [N, 1]"
  shows "\<exists>post. posterior_distribution env m X = Inr post
          \<and> shape (post_mean post) = [N] \<and> data (post_mean post) = data mean0
          \<and> shape (post_covariance post) = [N, N]
          \<and> (\<forall>i<N. \<forall>j<N. tget (post_covariance post) [i, j]
                 = (if i = j then data var0 ! i else 0))"
proof -
  from N have n1: "N \<noteq> Suc 0" "N \<noteq> 0" by simp_all
  define v where "v = squeeze var0"
  define f0 where "f0 = (\<lambda>idx :: nat list. if last idx = last (butlast idx) then tget v (butlast idx) else 0)"
  define cov0 where "cov0 = tabulate [N, N] f0"
  define cov1 where "cov1 = cov0\<lparr>shape := [1, N, 1, 1, N, 1]\<rparr>"
  define f2 where "f2 = (\<lambda>idx :: nat list. tget cov1 [idx ! 0, idx ! 1, idx ! 2, idx ! 0, idx ! 3, idx ! 4])"
  define cov2 where "cov2 = tabulate [1, N, 1, N, 1] f2"
  define cov4 where "cov4 = cov2\<lparr>shape := [N, N]\<rparr>"
  define mean3 where "mean3 = mean0\<lparr>shape := [N]\<rparr>"
  have shv: "shape v = [N]" "data v = data var0"
    using sv n1 by (simp_all add: v_def squeeze_def)
  have c0: "diag_embed v = Inr cov0"
    using shv by (simp add: diag_embed_def cov0_def f0_def)
  have m2: "reshape [1, N * 1] (squeeze mean0) = Inr (mean0\<lparr>shape := [1, N]\<rparr>)"
    using sm n1 by (simp add: reshape_def numel_def squeeze_def)
  have c1: "reshape [1, N, 1, 1, N, 1] cov0 = Inr cov1"
    by (simp add: reshape_def numel_def cov0_def cov1_def tabulate_def)
  have c2: "einsum_bqkbrl_bqkrl cov1 = Inr cov2"
    by (simp add: einsum_bqkbrl_bqkrl_def cov1_def cov2_def f2_def Let_def)
  have c3: "reshape [1, N * 1, N * 1] cov2 = Inr (cov2\<lparr>shape := [1, N, N]\<rparr>)"
    by (simp add: reshape_def numel_def cov2_def tabulate_def)
  have c4: "squeeze_dim 0 (cov2\<lparr>shape := [1, N, N]\<rparr>) = Inr cov4"
    by (simp add: squeeze_dim_def wrap_dim_def ndim_def cov4_def)
  have m3: "squeeze_dim 0 (mean0\<lparr>shape := [1, N]\<rparr>) = Inr mean3"
    by (simp add: squeeze_dim_def wrap_dim_def ndim_def mean3_def)
  have post: "posterior_distribution env m X
      = Inr \<lparr>post_mean = mean3, post_covariance = cov4, post_X = X, post_output_dim = 1\<rparr>"
    using X p K c0 [unfolded v_def] m2 c1 c2 c3 c4 m3
    by (simp add: posterior_distribution_def ndim_def Let_def)
  have entries: "tget cov4 [i, j] = (if i = j then data var0 ! i else 0)"
    if ij: "i < N" "j < N" for i j
  proof -
    note fi = flat_index [OF ij]
    have "tget cov4 [i, j] = data cov2 ! (i * N + j)"
      by (simp add: tget_def cov4_def)
    also have "\<dots> = f2 (unravel [1, N, 1, N, 1] (i * N + j))"
      unfolding cov2_def using fi(1) by (subst data_tabulate_nth) simp_all
    also have "unravel [1, N, 1, N, 1] (i * N + j) = [0, i, 0, j, 0]"
      using fi ij by simp
    also have "f2 [0, i, 0, j, 0] = data cov0 ! (i * N + j)"
      by (simp add: f2_def tget_def cov1_def)
    also have "\<dots> = f0 (unravel [N, N] (i * N + j))"
      unfolding cov0_def using fi(1) by (subst data_tabulate_nth) simp_all
    also have "unravel [N, N] (i * N + j) = [i, j]"
      using fi by simp
    also have "f0 [i, j] = (if i = j then data var0 ! i else 0)"
      using shv by (auto simp: f0_def tget_def)
    finally show ?thesis .
  qed
  show ?thesis
    using post entries by (simp add: mean3_def cov4_def)
qed

text \<open>
  Claim C1 does not hold of the code: evaluated at an unbatched input of shape
  \<open>(1, 1)\<close> with one output, of shape \<open>(2, 1)\<close> with two outputs and of shape
  \<open>(5, 3)\<close> with two outputs, \<^verbatim>\<open>posterior\<close> raises instead of returning a mean of
  shape \<open>(N * K,)\<close> and a block-diagonal covariance.
\<close>

theorem posterior_raises_demo:
  "posterior_distribution demo_engine (demo_model 1 1) (demo_X 1 1) = Inl IndexError
   \<and> posterior_distribution demo_engine (demo_model 1 2) (demo_X 2 1) = Inl RuntimeError
   \<and> posterior_distribution demo_engine (demo_model 3 2) (demo_X 5 3) = Inl RuntimeError"
  by code_simp

subsection \<open>What \<^verbatim>\<open>fit\<close> restores\<close>

text \<open>
  Claim C2 does not hold of the code. In the run below the first epoch has the
  lowest average loss, 1, and leaves the head weight at \<open>-2\<close>; the snapshot
  recorded then is the state dict of references. The second epoch (average loss
  4) moves the weight to 4, \<^verbatim>\<open>best_loss\<close> and the recorded state dict stay, and
  \<^verbatim>\<open>fit\<close> returns the weight 4 of the last epoch, not the \<open>-2\<close> of the best one
  (see \<open>fit_cases\<close> for every run).
\<close>

theorem fit_returns_last_epoch_demo:
  "map_sum id (\<lambda>ls. (best_loss ls, best_model_state ls, heap (cur ls) 1))
     (fit_epochs demo_engine (demo_model 1 1) [0] [0]
        (Some (demo_settings\<lparr>u_num_epochs := Some 1\<rparr>)) None)
     = Inr (Fin 1, Some [(''backbone.0.weight'', 0), (''head.W_mean'', 1)], vec1 (- 2))
   \<and> map_sum id (\<lambda>ls. (best_loss ls, best_model_state ls, heap (cur ls) 1))
     (fit_epochs demo_engine (demo_model 1 1) [0] [0] (Some demo_settings) None)
     = Inr (Fin 1, Some [(''backbone.0.weight'', 0), (''head.W_mean'', 1)], vec1 4)
   \<and> map_sum id (\<lambda>m'. heap m' 1)
     (fit demo_engine (demo_model 1 1) [0] [0] (Some demo_settings) None) = Inr (vec1 4)"
  by code_simp

end
